theory Spec2Isabelle
  imports Complex_Main "HOL-Library.Word"
begin

unbundle bit_operations_syntax

section \<open>Floating point values\<close>

text \<open>
  A \<^verbatim>\<open>float\<close> or \<^verbatim>\<open>double\<close> value is a real number, plus or minus infinity, or
  NaN. The special values follow IEEE 754, and every arithmetic result is rounded to the
  format of the operation (binary32 for \<^verbatim>\<open>float\<close>, binary64 for \<^verbatim>\<open>double\<close>): to
  the nearest representable value, ties to the even significand, with gradual underflow
  and overflow to infinity. The sign of zero is not modelled (a zero divisor counts as
  positive zero).
\<close>

datatype float = Fin real | PInf | NInf | NaN

definition signed_inf :: "bool \<Rightarrow> float" where
  "signed_inf positive = (if positive then PInf else NInf)"

definition pow2 :: "int \<Rightarrow> real" where
  "pow2 q = (if 0 \<le> q then 2 ^ nat q else 1 / 2 ^ nat (- q))"

definition round_half_even :: "real \<Rightarrow> int" where
  "round_half_even y =
     (let f = \<lfloor>y\<rfloor>; r = y - of_int f
      in if r < 1 / 2 then f else if 1 / 2 < r then f + 1 else if even f then f else f + 1)"

text \<open>
  The exponent of the last place of a positive value \<open>a\<close> in a format with \<open>p\<close>
  significant bits and least exponent \<open>qmin\<close>: the largest \<open>q = qmin + k\<close> among the
  \<open>k\<close> candidates with \<open>2 ^ (q + p - 1) \<le> a\<close>, and \<open>qmin\<close> when there is none
  (subnormal values and the lowest binade).
\<close>

primrec quantum_exp :: "nat \<Rightarrow> int \<Rightarrow> nat \<Rightarrow> real \<Rightarrow> int" where
  "quantum_exp p qmin 0 a = qmin"
| "quantum_exp p qmin (Suc k) a =
     (if pow2 (qmin + int (Suc k) + int p - 1) \<le> a then qmin + int (Suc k)
      else quantum_exp p qmin k a)"

text \<open>
  Rounding to the format with \<open>p\<close> significant bits, least exponent \<open>qmin\<close> and values
  below \<open>2 ^ emax\<close>: binary32 is \<open>p = 24\<close>, \<open>qmin = -149\<close>, \<open>emax = 128\<close>; binary64 is
  \<open>p = 53\<close>, \<open>qmin = -1074\<close>, \<open>emax = 1024\<close>.
\<close>

definition round_fp :: "nat \<Rightarrow> int \<Rightarrow> int \<Rightarrow> real \<Rightarrow> float" where
  "round_fp p qmin emax x =
     (if x = 0 then Fin 0
      else
        let q = quantum_exp p qmin (nat (emax - int p - qmin)) \<bar>x\<bar>;
            ulp = pow2 q;
            r = of_int (round_half_even (x / ulp)) * ulp
        in if pow2 emax \<le> \<bar>r\<bar> then signed_inf (0 < x) else Fin r)"

definition round32 :: "real \<Rightarrow> float" where
  "round32 = round_fp 24 (- 149) 128"

definition round64 :: "real \<Rightarrow> float" where
  "round64 = round_fp 53 (- 1074) 1024"

text \<open>The operations, with the rounding of the format as first argument.\<close>

fun fneg :: "float \<Rightarrow> float" where
  "fneg (Fin x) = Fin (- x)"
| "fneg PInf = NInf"
| "fneg NInf = PInf"
| "fneg NaN = NaN"

fun add_rnd :: "(real \<Rightarrow> float) \<Rightarrow> float \<Rightarrow> float \<Rightarrow> float" where
  "add_rnd rnd (Fin x) (Fin y) = rnd (x + y)"
| "add_rnd rnd NaN b = NaN"
| "add_rnd rnd a NaN = NaN"
| "add_rnd rnd PInf NInf = NaN"
| "add_rnd rnd NInf PInf = NaN"
| "add_rnd rnd PInf b = PInf"
| "add_rnd rnd a PInf = PInf"
| "add_rnd rnd NInf b = NInf"
| "add_rnd rnd a NInf = NInf"

fun mul_rnd :: "(real \<Rightarrow> float) \<Rightarrow> float \<Rightarrow> float \<Rightarrow> float" where
  "mul_rnd rnd (Fin x) (Fin y) = rnd (x * y)"
| "mul_rnd rnd NaN b = NaN"
| "mul_rnd rnd a NaN = NaN"
| "mul_rnd rnd (Fin x) PInf = (if x = 0 then NaN else signed_inf (0 < x))"
| "mul_rnd rnd (Fin x) NInf = (if x = 0 then NaN else signed_inf (x < 0))"
| "mul_rnd rnd PInf (Fin y) = (if y = 0 then NaN else signed_inf (0 < y))"
| "mul_rnd rnd NInf (Fin y) = (if y = 0 then NaN else signed_inf (y < 0))"
| "mul_rnd rnd PInf PInf = PInf"
| "mul_rnd rnd PInf NInf = NInf"
| "mul_rnd rnd NInf PInf = NInf"
| "mul_rnd rnd NInf NInf = PInf"

fun div_rnd :: "(real \<Rightarrow> float) \<Rightarrow> float \<Rightarrow> float \<Rightarrow> float" where
  "div_rnd rnd (Fin x) (Fin y) =
     (if y = 0 then (if x = 0 then NaN else signed_inf (0 < x)) else rnd (x / y))"
| "div_rnd rnd NaN b = NaN"
| "div_rnd rnd a NaN = NaN"
| "div_rnd rnd (Fin x) PInf = Fin 0"
| "div_rnd rnd (Fin x) NInf = Fin 0"
| "div_rnd rnd PInf (Fin y) = signed_inf (0 \<le> y)"
| "div_rnd rnd NInf (Fin y) = signed_inf (y < 0)"
| "div_rnd rnd PInf PInf = NaN"
| "div_rnd rnd PInf NInf = NaN"
| "div_rnd rnd NInf PInf = NaN"
| "div_rnd rnd NInf NInf = NaN"

fun sqrt_rnd :: "(real \<Rightarrow> float) \<Rightarrow> float \<Rightarrow> float" where
  "sqrt_rnd rnd (Fin x) = (if x < 0 then NaN else rnd (sqrt x))"
| "sqrt_rnd rnd PInf = PInf"
| "sqrt_rnd rnd NInf = NaN"
| "sqrt_rnd rnd NaN = NaN"

text \<open>The \<^verbatim>\<open>float\<close> operations round to binary32, the \<^verbatim>\<open>double\<close> ones to binary64.\<close>

abbreviation fadd :: "float \<Rightarrow> float \<Rightarrow> float" where
  "fadd \<equiv> add_rnd round32"

abbreviation fmul :: "float \<Rightarrow> float \<Rightarrow> float" where
  "fmul \<equiv> mul_rnd round32"

abbreviation fdiv :: "float \<Rightarrow> float \<Rightarrow> float" where
  "fdiv \<equiv> div_rnd round32"

abbreviation fsqrt :: "float \<Rightarrow> float" where
  "fsqrt \<equiv> sqrt_rnd round32"

abbreviation dadd :: "float \<Rightarrow> float \<Rightarrow> float" where
  "dadd \<equiv> add_rnd round64"

abbreviation dmul :: "float \<Rightarrow> float \<Rightarrow> float" where
  "dmul \<equiv> mul_rnd round64"

abbreviation ddiv :: "float \<Rightarrow> float \<Rightarrow> float" where
  "ddiv \<equiv> div_rnd round64"

abbreviation dsqrt :: "float \<Rightarrow> float" where
  "dsqrt \<equiv> sqrt_rnd round64"

definition fsub :: "float \<Rightarrow> float \<Rightarrow> float" where
  "fsub a b = fadd a (fneg b)"

text \<open>The comparisons \<^verbatim>\<open><\<close>, \<^verbatim>\<open><=\<close> and \<^verbatim>\<open>==\<close>: false as soon as one side is NaN.\<close>

fun flt :: "float \<Rightarrow> float \<Rightarrow> bool" where
  "flt (Fin x) (Fin y) = (x < y)"
| "flt (Fin x) PInf = True"
| "flt NInf (Fin y) = True"
| "flt NInf PInf = True"
| "flt a b = False"

fun fle :: "float \<Rightarrow> float \<Rightarrow> bool" where
  "fle (Fin x) (Fin y) = (x \<le> y)"
| "fle NaN b = False"
| "fle a NaN = False"
| "fle NInf b = True"
| "fle a PInf = True"
| "fle a b = False"

fun feq :: "float \<Rightarrow> float \<Rightarrow> bool" where
  "feq NaN b = False"
| "feq a NaN = False"
| "feq a b = (a = b)"

text \<open>\<^verbatim>\<open>std::min(a, b)\<close> is \<^verbatim>\<open>(b < a) ? b : a\<close> and \<^verbatim>\<open>std::max(a, b)\<close> is
  \<^verbatim>\<open>(a < b) ? b : a\<close>.\<close>

definition std_min :: "float \<Rightarrow> float \<Rightarrow> float" where
  "std_min a b = (if flt b a then b else a)"

definition std_max :: "float \<Rightarrow> float \<Rightarrow> float" where
  "std_max a b = (if flt a b then b else a)"

text \<open>
  Conversions. An \<^verbatim>\<open>int\<close> becomes the nearest \<^verbatim>\<open>float\<close> or \<^verbatim>\<open>double\<close>; a
  \<^verbatim>\<open>float\<close> becomes a \<^verbatim>\<open>double\<close> unchanged; a \<^verbatim>\<open>double\<close> becomes the nearest
  \<^verbatim>\<open>float\<close>.
\<close>

definition float_of_int :: "int \<Rightarrow> float" where
  "float_of_int i = round32 (of_int i)"

definition double_of_int :: "int \<Rightarrow> float" where
  "double_of_int i = round64 (of_int i)"

fun float_of_double :: "float \<Rightarrow> float" where
  "float_of_double (Fin x) = round32 x"
| "float_of_double a = a"

text \<open>
  \<^verbatim>\<open>static_cast<int>\<close> of a \<^verbatim>\<open>float\<close> and \<^verbatim>\<open>static_cast<uint16_t>\<close> of a
  \<^verbatim>\<open>double\<close> drop the fraction (round towards zero). The behaviour is undefined
  (\<open>None\<close>) for NaN, the infinities and values whose truncation does not fit the
  integer type.
\<close>

definition truncate_real :: "real \<Rightarrow> int" where
  "truncate_real x = (if 0 \<le> x then \<lfloor>x\<rfloor> else \<lceil>x\<rceil>)"

fun static_cast_int :: "float \<Rightarrow> int option" where
  "static_cast_int (Fin x) =
     (let t = truncate_real x
      in if - 2147483648 \<le> t \<and> t \<le> 2147483647 then Some t else None)"
| "static_cast_int a = None"

fun to_uint16 :: "float \<Rightarrow> 16 word option" where
  "to_uint16 (Fin x) =
     (let t = truncate_real x in if 0 \<le> t \<and> t < 65536 then Some (word_of_int t) else None)"
| "to_uint16 a = None"

section \<open>Byte and float codec of the trace file writer (segy\_writer.cpp)\<close>

type_synonym byte = "8 word"
type_synonym uint16 = "16 word"
type_synonym uint32 = "32 word"

text \<open>
  \<^verbatim>\<open>SegyWriter::swapBytes16\<close> and \<^verbatim>\<open>SegyWriter::swapBytes32\<close>, on
  words of the width of the C++ return type (the promotion of \<^verbatim>\<open>uint16_t\<close> to
  \<^verbatim>\<open>int\<close> inside the 16-bit swap is cut back by the return conversion).
\<close>

definition swapBytes16 :: "uint16 \<Rightarrow> uint16" where
  "swapBytes16 val = (push_bit 8 val) OR (drop_bit 8 val)"

definition swapBytes32 :: "uint32 \<Rightarrow> uint32" where
  "swapBytes32 val =
     (let v = ((push_bit 8 val) AND 0xFF00FF00) OR ((drop_bit 8 val) AND 0xFF00FF)
      in (push_bit 16 v) OR (drop_bit 16 v))"

text \<open>
  The correction tables of \<^verbatim>\<open>SegyWriter::ieeeToIbm\<close>. The function works on the
  bit pattern of its \<^verbatim>\<open>float\<close> argument (it copies the four bytes into a
  \<^verbatim>\<open>uint32_t\<close> first), so the model takes the bit pattern.
\<close>

definition it_tab :: "uint32 list" where
  "it_tab = [0x21200000, 0x21400000, 0x21800000, 0x22100000]"

definition mt_tab :: "uint32 list" where
  "mt_tab = [2, 4, 8, 1]"

definition ieeeToIbm :: "uint32 \<Rightarrow> uint32" where
  "ieeeToIbm ieee =
     (if ieee = 0 then 0
      else
        let ix = unat (drop_bit 23 (ieee AND 0x01800000));
            iexp = drop_bit 1 (ieee AND 0x7e000000) + it_tab ! ix;
            manthi = drop_bit 3 ((mt_tab ! ix) * (ieee AND 0x007fffff));
            ibm_bits = (manthi + iexp) OR (ieee AND 0x80000000)
        in if ieee AND 0x7fffffff \<noteq> 0 then ibm_bits else 0)"

subsection \<open>The writer object and the files it touches\<close>

text \<open>
  A file is the list of its bytes. The writer keeps the three blobs it read from the
  reference file. Multi-byte fields are copied with \<^verbatim>\<open>memcpy\<close>; the model
  fixes a little-endian host, where the byte at the lower address is the low byte.
  Every \<^verbatim>\<open>throw std::runtime_error\<close> of the source is a constructor of
  \<open>write_error\<close>, named after the message it carries or the spec's name for it.
\<close>

datatype write_error =
    CannotOpenReference
  | TextHeaderShort
  | BinaryHeaderShort
  | ZeroSamplesInReference
  | TraceHeaderShort nat
  | DataEmpty
  | InconsistentTraceLength
  | HeaderCountMismatch
  | MalformedHeader
  | CannotCreateOutput
  | WriteFailedTextHeader
  | WriteFailedBinaryHeader
  | WriteFailedTraceHeader nat
  | WriteFailedSample nat nat
  | UndefinedConversion

record SegyWriter =
  text_header :: "byte list"
  binary_header :: "byte list"
  reference_trace_headers :: "byte list list"


definition store16 :: "byte list \<Rightarrow> nat \<Rightarrow> uint16 \<Rightarrow> byte list" where
  "store16 buf off v = (buf[off := ucast v])[off + 1 := ucast (drop_bit 8 v)]"

definition bytes_of32 :: "uint32 \<Rightarrow> byte list" where
  "bytes_of32 v = [ucast v, ucast (drop_bit 8 v), ucast (drop_bit 16 v), ucast (drop_bit 24 v)]"



text \<open>
  The output stream: the bytes written so far, the number of bytes the device still
  takes, and the stream's \<^verbatim>\<open>good()\<close> flag. A write that does not fit leaves the
  stream bad.
\<close>

record ofstream =
  written :: "byte list"
  room :: nat
  good :: bool

definition stream_write :: "ofstream \<Rightarrow> byte list \<Rightarrow> ofstream" where
  "stream_write s bs =
     (if good s \<and> length bs \<le> room s
      then s\<lparr>written := written s @ bs, room := room s - length bs\<rparr>
      else if good s
      then s\<lparr>written := written s @ take (room s) bs, room := 0, good := False\<rparr>
      else s)"

text \<open>The target path: whether a file can be created there, the room on the device,
  and the bytes the path holds now (\<open>None\<close>: no such file).\<close>

record target =
  creatable :: bool
  capacity :: nat
  bytes :: "byte list option"

definition writeTextHeader :: "SegyWriter \<Rightarrow> ofstream \<Rightarrow> (write_error + unit) \<times> ofstream" where
  "writeTextHeader w file =
     (let file' = stream_write file (text_header w)
      in if \<not> good file' then (Inl WriteFailedTextHeader, file') else (Inr (), file'))"

definition patched_header :: "SegyWriter \<Rightarrow> uint16 \<Rightarrow> nat \<Rightarrow> byte list" where
  "patched_header w dt_us num_samples =
     (let header_copy = binary_header w;
          header_copy = store16 header_copy 16 (swapBytes16 dt_us);
          n_samples = (of_nat num_samples :: uint16);
          header_copy = store16 header_copy 20 (swapBytes16 n_samples)
      in header_copy)"

text \<open>
  \<^verbatim>\<open>writeBinaryHeader\<close>: the product \<^verbatim>\<open>sample_interval * 1e6\<close> is a
  \<^verbatim>\<open>double\<close> product; its conversion to \<^verbatim>\<open>uint16_t\<close> is undefined when the
  truncated value does not fit.
\<close>

definition writeBinaryHeader ::
  "SegyWriter \<Rightarrow> ofstream \<Rightarrow> float \<Rightarrow> nat \<Rightarrow> (write_error + unit) \<times> ofstream" where
  "writeBinaryHeader w file sample_interval num_samples =
     (case to_uint16 (dmul sample_interval (Fin 1000000)) of
        None \<Rightarrow> (Inl UndefinedConversion, file)
      | Some dt_us \<Rightarrow>
          let file' = stream_write file (patched_header w dt_us num_samples)
          in if \<not> good file' then (Inl WriteFailedBinaryHeader, file') else (Inr (), file'))"

fun write_samples :: "ofstream \<Rightarrow> nat \<Rightarrow> nat \<Rightarrow> uint32 list \<Rightarrow> (write_error + unit) \<times> ofstream" where
  "write_samples file i j [] = (Inr (), file)"
| "write_samples file i j (x # xs) =
     (let ibm = swapBytes32 (ieeeToIbm x);
          file' = stream_write file (bytes_of32 ibm)
      in if \<not> good file' then (Inl (WriteFailedSample j i), file')
         else write_samples file' i (Suc j) xs)"

fun write_traces ::
  "ofstream \<Rightarrow> nat \<Rightarrow> uint32 list list \<Rightarrow> byte list list \<Rightarrow> (write_error + unit) \<times> ofstream" where
  "write_traces file i [] trace_headers = (Inr (), file)"
| "write_traces file i (tr # trs) trace_headers =
     (let file' = stream_write file (trace_headers ! i)
      in if \<not> good file' then (Inl (WriteFailedTraceHeader i), file')
         else (case write_samples file' i 0 tr of
                 (Inl e, file'') \<Rightarrow> (Inl e, file'')
               | (Inr u, file'') \<Rightarrow> write_traces file'' (Suc i) trs trace_headers))"

definition writeTraces ::
  "ofstream \<Rightarrow> uint32 list list \<Rightarrow> byte list list \<Rightarrow> (write_error + unit) \<times> ofstream" where
  "writeTraces file data trace_headers = write_traces file 0 data trace_headers"

text \<open>
  \<^verbatim>\<open>SegyWriter::writeFile\<close> (the overload with trace headers). The samples are given
  by their IEEE bit patterns. The result is the outcome and the bytes the target path
  holds after the call.
\<close>

definition writeFile ::
  "SegyWriter \<Rightarrow> target \<Rightarrow> uint32 list list \<Rightarrow> float \<Rightarrow> byte list list
     \<Rightarrow> (write_error + unit) \<times> byte list option" where
  "writeFile w tgt data sample_interval trace_headers =
     (if data = [] then (Inl DataEmpty, bytes tgt)
      else
        let num_traces = length data;
            num_samples = length (data ! 0)
        in if list_ex (\<lambda>i. length (data ! i) \<noteq> num_samples) [1..<num_traces]
           then (Inl InconsistentTraceLength, bytes tgt)
           else if length trace_headers \<noteq> num_traces
           then (Inl HeaderCountMismatch, bytes tgt)
           else if list_ex (\<lambda>i. length (trace_headers ! i) \<noteq> 240) [0..<num_traces]
           then (Inl MalformedHeader, bytes tgt)
           else if \<not> creatable tgt then (Inl CannotCreateOutput, bytes tgt)
           else
             let file = \<lparr>written = [], room = capacity tgt, good = True\<rparr> in
             (case writeTextHeader w file of
                (Inl e, file1) \<Rightarrow> (Inl e, Some (written file1))
              | (Inr u, file1) \<Rightarrow>
                 (case writeBinaryHeader w file1 sample_interval num_samples of
                    (Inl e, file2) \<Rightarrow> (Inl e, Some (written file2))
                  | (Inr u, file2) \<Rightarrow>
                     (case writeTraces file2 data trace_headers of
                        (Inl e, file3) \<Rightarrow> (Inl e, Some (written file3))
                      | (Inr u, file3) \<Rightarrow> (Inr (), Some (written file3))))))"

text \<open>The overload without trace headers passes the reference file's.\<close>

definition writeFile_ref ::
  "SegyWriter \<Rightarrow> target \<Rightarrow> uint32 list list \<Rightarrow> float \<Rightarrow> (write_error + unit) \<times> byte list option" where
  "writeFile_ref w tgt data sample_interval =
     writeFile w tgt data sample_interval (reference_trace_headers w)"

text \<open>
  The conversion as the specification words it, for comparison with the source: the same
  tables, but the entry chosen by the two high bits of the mantissa field (bits 22 and 21
  of the IEEE pattern).
\<close>

definition ieeeToIbm_mantissa_keyed :: "uint32 \<Rightarrow> uint32" where
  "ieeeToIbm_mantissa_keyed ieee =
     (if ieee AND 0x7fffffff = 0 then 0
      else
        let ix = unat (drop_bit 21 (ieee AND 0x00600000));
            iexp = drop_bit 1 (ieee AND 0x7e000000) + it_tab ! ix;
            manthi = drop_bit 3 ((mt_tab ! ix) * (ieee AND 0x007fffff))
        in (manthi + iexp) OR (ieee AND 0x80000000))"

section \<open>The amplitude-tuning engine (amplify.h, amplify.cpp)\<close>

subsection \<open>Data of amplify.h\<close>

text \<open>
  Trace indices and sample indices held in \<^verbatim>\<open>int\<close> variables are integers; the
  model assumes they and the grid dimensions stay within 32 bits, so no \<^verbatim>\<open>int\<close>
  arithmetic wraps. Cells are read with \<open>!\<close>; the theorems state the shape of the arrays
  under which every read of the source is in range. Cells of the window mask are written
  through \<open>mark\<close>, which fails (\<open>None\<close>, undefined behaviour in C++) out of range.
\<close>

record Point =
  trace :: int
  time_ms :: float

type_synonym SeismicData = "float list list"
type_synonym BooleanMask = "bool list list"
type_synonym FloatMask = "float list list"

record AmplifyResult =
  output_data :: SeismicData
  multiplier_mask :: FloatMask
  window_indices :: BooleanMask

definition AmplifyResult_init :: "nat \<Rightarrow> nat \<Rightarrow> AmplifyResult" where
  "AmplifyResult_init n_traces n_samples =
     \<lparr>output_data = replicate n_traces (replicate n_samples (Fin 0)),
      multiplier_mask = replicate n_traces (replicate n_samples (Fin 1)),
      window_indices = replicate n_traces (replicate n_samples False)\<rparr>"

datatype TransitionMode = OUTSIDE | INSIDE

datatype ProcessingMode = SCALE | ALIGN

datatype amplify_error = InvalidArgument | UndefinedBehaviour

subsection \<open>\<^verbatim>\<open>distanceTransformEDT\<close>\<close>

definition forward_cell :: "BooleanMask \<Rightarrow> float \<Rightarrow> float \<Rightarrow> nat \<Rightarrow> nat \<Rightarrow> FloatMask \<Rightarrow> FloatMask" where
  "forward_cell binary_mask trace_sampling time_sampling i j distance_map =
     (if binary_mask ! i ! j then
        let min_dist = distance_map ! i ! j;
            min_dist = (if i > 0
                        then std_min min_dist (fadd (distance_map ! (i - 1) ! j) trace_sampling)
                        else min_dist);
            min_dist = (if j > 0
                        then std_min min_dist (fadd (distance_map ! i ! (j - 1)) time_sampling)
                        else min_dist);
            min_dist = (if i > 0 \<and> j > 0
                        then std_min min_dist
                               (fadd (distance_map ! (i - 1) ! (j - 1))
                                  (fsqrt (fadd (fmul trace_sampling trace_sampling)
                                               (fmul time_sampling time_sampling))))
                        else min_dist)
        in distance_map[i := (distance_map ! i)[j := min_dist]]
      else distance_map)"

definition backward_cell ::
  "BooleanMask \<Rightarrow> nat \<Rightarrow> nat \<Rightarrow> float \<Rightarrow> float \<Rightarrow> nat \<Rightarrow> nat \<Rightarrow> FloatMask \<Rightarrow> FloatMask" where
  "backward_cell binary_mask n_traces n_samples trace_sampling time_sampling i j distance_map =
     (if binary_mask ! i ! j then
        let min_dist = distance_map ! i ! j;
            min_dist = (if int i < int n_traces - 1
                        then std_min min_dist (fadd (distance_map ! (i + 1) ! j) trace_sampling)
                        else min_dist);
            min_dist = (if int j < int n_samples - 1
                        then std_min min_dist (fadd (distance_map ! i ! (j + 1)) time_sampling)
                        else min_dist);
            min_dist = (if int i < int n_traces - 1 \<and> int j < int n_samples - 1
                        then std_min min_dist
                               (fadd (distance_map ! (i + 1) ! (j + 1))
                                  (fsqrt (fadd (fmul trace_sampling trace_sampling)
                                               (fmul time_sampling time_sampling))))
                        else min_dist)
        in distance_map[i := (distance_map ! i)[j := min_dist]]
      else distance_map)"

definition distanceTransformEDT :: "BooleanMask \<Rightarrow> float list \<Rightarrow> FloatMask" where
  "distanceTransformEDT binary_mask sampling =
     (if binary_mask = [] \<or> binary_mask ! 0 = [] then []
      else
        let n_traces = length binary_mask;
            n_samples = length (binary_mask ! 0);
            distance_map =
              map (\<lambda>i. map (\<lambda>j. if \<not> binary_mask ! i ! j then Fin 0 else PInf) [0..<n_samples])
                [0..<n_traces];
            trace_sampling = sampling ! 0;
            time_sampling = sampling ! 1;
            distance_map =
              fold (\<lambda>i. fold (forward_cell binary_mask trace_sampling time_sampling i)
                            [0..<n_samples])
                [0..<n_traces] distance_map;
            distance_map =
              fold (\<lambda>i. fold (backward_cell binary_mask n_traces n_samples
                                 trace_sampling time_sampling i)
                            (rev [0..<n_samples]))
                (rev [0..<n_traces]) distance_map
        in distance_map)"

subsection \<open>\<^verbatim>\<open>createTransitionMask\<close>\<close>

definition mask_as_float :: "nat \<Rightarrow> nat \<Rightarrow> BooleanMask \<Rightarrow> FloatMask" where
  "mask_as_float n_traces n_samples window =
     map (\<lambda>i. map (\<lambda>j. if window ! i ! j then Fin 1 else Fin 0) [0..<n_samples]) [0..<n_traces]"

definition max_dist_inside_of :: "nat \<Rightarrow> nat \<Rightarrow> BooleanMask \<Rightarrow> FloatMask \<Rightarrow> float" where
  "max_dist_inside_of n_traces n_samples window distances =
     fold (\<lambda>i. fold (\<lambda>j max_dist_inside.
                        if window ! i ! j then std_max max_dist_inside (distances ! i ! j)
                        else max_dist_inside)
                   [0..<n_samples])
       [0..<n_traces] (Fin 0)"

definition createTransitionMask ::
  "nat \<times> nat \<Rightarrow> BooleanMask \<Rightarrow> int \<Rightarrow> float \<Rightarrow> float \<Rightarrow> TransitionMode \<Rightarrow> FloatMask" where
  "createTransitionMask seismic_data_shape window transition_width_traces
       transition_width_time_ms dt_ms transition_mode =
     (let n_traces = fst seismic_data_shape;
          n_samples = snd seismic_data_shape
      in if transition_width_traces \<le> 0 \<or> fle transition_width_time_ms (Fin 0)
         then mask_as_float n_traces n_samples window
         else
           let transition_width_samples = fdiv transition_width_time_ms dt_ms;
               sampling = [fdiv (Fin 1) (float_of_int transition_width_traces),
                           fdiv (Fin 1) transition_width_samples]
           in if transition_mode = OUTSIDE then
                let inverted_mask = map (map Not) window;
                    distances = distanceTransformEDT inverted_mask sampling
                in map (\<lambda>i. map (\<lambda>j.
                          let transition_factor =
                                std_max (Fin 0) (std_min (Fin 1) (fsub (Fin 1) (distances ! i ! j)))
                          in if window ! i ! j then Fin 1 else transition_factor)
                        [0..<n_samples]) [0..<n_traces]
              else
                let distances = distanceTransformEDT window sampling;
                    max_dist_inside = max_dist_inside_of n_traces n_samples window distances
                in if feq max_dist_inside (Fin 0)
                   then mask_as_float n_traces n_samples window
                   else map (\<lambda>i. map (\<lambda>j.
                              if window ! i ! j then fdiv (distances ! i ! j) max_dist_inside
                              else Fin 0)
                            [0..<n_samples]) [0..<n_traces])"

subsection \<open>\<^verbatim>\<open>createWindowMask\<close>\<close>

text \<open>A \<^verbatim>\<open>for (int i = lo; i <= hi; ++i)\<close> loop whose body may fail.\<close>

function for_range :: "int \<Rightarrow> int \<Rightarrow> (int \<Rightarrow> 's \<Rightarrow> 's option) \<Rightarrow> 's \<Rightarrow> 's option" where
  "for_range i hi body s =
     (if i \<le> hi
      then (case body i s of None \<Rightarrow> None | Some s' \<Rightarrow> for_range (i + 1) hi body s')
      else Some s)"
  by pat_completeness auto
termination
  by (relation "measure (\<lambda>(i, hi, body, s). nat (hi + 1 - i))") auto

definition mark :: "BooleanMask \<Rightarrow> int \<Rightarrow> int \<Rightarrow> BooleanMask option" where
  "mark m t s =
     (if 0 \<le> t \<and> nat t < length m \<and> 0 \<le> s \<and> nat s < length (m ! nat t)
      then Some (m[nat t := (m ! nat t)[nat s := True]])
      else None)"

text \<open>The loop of the branch \<^verbatim>\<open>target_window.size() < 3\<close>.\<close>

fun mark_points :: "nat \<Rightarrow> nat \<Rightarrow> float \<Rightarrow> Point list \<Rightarrow> BooleanMask \<Rightarrow> BooleanMask option" where
  "mark_points n_traces n_samples dt_ms [] m = Some m"
| "mark_points n_traces n_samples dt_ms (point # points) m =
     (case static_cast_int (fdiv (time_ms point) dt_ms) of
        None \<Rightarrow> None
      | Some sample \<Rightarrow>
          if trace point \<ge> 0 \<and> trace point < int n_traces \<and> sample \<ge> 0 \<and> sample < int n_samples
          then (case mark m (trace point) sample of
                  None \<Rightarrow> None
                | Some m' \<Rightarrow> mark_points n_traces n_samples dt_ms points m')
          else mark_points n_traces n_samples dt_ms points m)"

text \<open>The crossings of the vertical line at \<open>trace_idx\<close> with the edges of the closed polygon.\<close>

fun intersections_at :: "int \<Rightarrow> Point list \<Rightarrow> float list" where
  "intersections_at trace_idx (p1 # p2 # ps) =
     (let x1 = float_of_int (trace p1);
          y1 = time_ms p1;
          x2 = float_of_int (trace p2);
          y2 = time_ms p2
      in (if \<not> feq x1 x2 then
            let t = fdiv (fsub (float_of_int trace_idx) x1) (fsub x2 x1)
            in if fle (Fin 0) t \<and> fle t (Fin 1)
               then [fadd y1 (fmul t (fsub y2 y1))]
               else []
          else [])
         @ intersections_at trace_idx (p2 # ps))"
| "intersections_at trace_idx ps = []"

text \<open>
  \<^verbatim>\<open>std::sort\<close> needs a strict weak ordering, which \<^verbatim>\<open><\<close> is not once a NaN is
  among the values (undefined behaviour, \<open>None\<close>). Without NaN the ascending order is
  unique.
\<close>

fun insert_ascending :: "float \<Rightarrow> float list \<Rightarrow> float list" where
  "insert_ascending x [] = [x]"
| "insert_ascending x (y # ys) = (if fle x y then x # y # ys else y # insert_ascending x ys)"

definition std_sort :: "float list \<Rightarrow> float list option" where
  "std_sort xs = (if list_ex (\<lambda>x. x = NaN) xs then None else Some (foldr insert_ascending xs []))"

fun fill_pairs ::
  "nat \<Rightarrow> nat \<Rightarrow> float \<Rightarrow> int \<Rightarrow> float list \<Rightarrow> BooleanMask \<Rightarrow> BooleanMask option" where
  "fill_pairs n_traces n_samples dt_ms trace_idx (a # b # rest) m =
     (case static_cast_int (fdiv a dt_ms) of
        None \<Rightarrow> None
      | Some start_sample \<Rightarrow>
         (case static_cast_int (fdiv b dt_ms) of
            None \<Rightarrow> None
          | Some end_sample \<Rightarrow>
              let start_sample = max 0 (min (int n_samples - 1) start_sample);
                  end_sample = max 0 (min (int n_samples - 1) end_sample)
              in (case for_range start_sample end_sample
                         (\<lambda>sample m. if trace_idx \<ge> 0 \<and> trace_idx < int n_traces
                                      then mark m trace_idx sample else Some m) m of
                    None \<Rightarrow> None
                  | Some m' \<Rightarrow> fill_pairs n_traces n_samples dt_ms trace_idx rest m')))"
| "fill_pairs n_traces n_samples dt_ms trace_idx xs m = Some m"

definition createWindowMask :: "nat \<times> nat \<Rightarrow> Point list \<Rightarrow> float \<Rightarrow> BooleanMask option" where
  "createWindowMask seismic_data_shape target_window dt_ms =
     (let n_traces = fst seismic_data_shape;
          n_samples = snd seismic_data_shape;
          window = replicate n_traces (replicate n_samples False)
      in if target_window = [] then Some window
         else if length target_window = 2 then
           let p1 = target_window ! 0;
               p2 = target_window ! 1
           in (case static_cast_int (fdiv (time_ms p1) dt_ms) of
                 None \<Rightarrow> None
               | Some s1 \<Rightarrow>
                  (case static_cast_int (fdiv (time_ms p2) dt_ms) of
                     None \<Rightarrow> None
                   | Some s2 \<Rightarrow>
                       let min_trace = min (trace p1) (trace p2);
                           max_trace = max (trace p1) (trace p2);
                           min_sample = min s1 s2;
                           max_sample = max s1 s2;
                           min_trace = max 0 (min (int n_traces - 1) min_trace);
                           max_trace = max 0 (min (int n_traces - 1) max_trace);
                           min_sample = max 0 (min (int n_samples - 1) min_sample);
                           max_sample = max 0 (min (int n_samples - 1) max_sample)
                       in for_range min_trace max_trace
                            (\<lambda>t. for_range min_sample max_sample (\<lambda>s m. mark m t s)) window))
         else if length target_window < 3 then
           mark_points n_traces n_samples dt_ms target_window window
         else
           let min_trace = fold (\<lambda>point m. min m (trace point)) target_window
                             (trace (target_window ! 0));
               max_trace = fold (\<lambda>point m. max m (trace point)) target_window
                             (trace (target_window ! 0));
               closed_polygon = target_window @ [target_window ! 0]
           in for_range min_trace max_trace
                (\<lambda>trace_idx m.
                   case std_sort (intersections_at trace_idx closed_polygon) of
                     None \<Rightarrow> None
                   | Some intersections \<Rightarrow>
                       fill_pairs n_traces n_samples dt_ms trace_idx intersections m)
                window)"

subsection \<open>\<^verbatim>\<open>calculateRMS\<close> and \<^verbatim>\<open>amplifySeismicWindow\<close>\<close>

definition calculateRMS :: "SeismicData \<Rightarrow> BooleanMask \<Rightarrow> float" where
  "calculateRMS data region =
     (if data = [] \<or> data ! 0 = [] then Fin 0
      else
        let (sum_squares, count) =
              fold (\<lambda>i. fold (\<lambda>j (sum_squares, count).
                                 if region ! i ! j
                                 then (dadd sum_squares (fmul (data ! i ! j) (data ! i ! j)),
                                       count + 1)
                                 else (sum_squares, count))
                            [0..<length (data ! i)])
                [0..<length data] (Fin 0, 0 :: int)
        in if count = 0 then Fin 0
           else float_of_double (dsqrt (ddiv sum_squares (double_of_int count))))"

definition has_true :: "BooleanMask \<Rightarrow> bool" where
  "has_true m = list_ex (list_ex (\<lambda>val. val)) m"

text \<open>The bounding box of the window: \<open>(min_trace, max_trace, min_sample, max_sample)\<close>.\<close>

definition window_box :: "nat \<Rightarrow> nat \<Rightarrow> BooleanMask \<Rightarrow> int \<times> int \<times> int \<times> int" where
  "window_box n_traces n_time_samples window =
     fold (\<lambda>i. fold (\<lambda>j (min_trace, max_trace, min_sample, max_sample).
                        if window ! i ! j
                        then (min min_trace (int i), max max_trace (int i),
                              min min_sample (int j), max max_sample (int j))
                        else (min_trace, max_trace, min_sample, max_sample))
                   [0..<n_time_samples])
       [0..<n_traces] (int n_traces, - 1, int n_time_samples, - 1)"

text \<open>The value of \<^verbatim>\<open>target_amplification\<close> when the final loop starts.\<close>

definition target_amplification ::
  "SeismicData \<Rightarrow> float \<Rightarrow> BooleanMask \<Rightarrow> ProcessingMode \<Rightarrow> float \<Rightarrow> int \<Rightarrow> float
     \<Rightarrow> float option" where
  "target_amplification seismic_data dt_ms window mode scale_factor align_width_traces
       align_width_time_ms =
     (case mode of
        SCALE \<Rightarrow> Some scale_factor
      | ALIGN \<Rightarrow>
          let n_traces = length seismic_data;
              n_time_samples = length (seismic_data ! 0);
              rms_in_window = calculateRMS seismic_data window
          in (case static_cast_int (fdiv align_width_time_ms dt_ms) of
                None \<Rightarrow> None
              | Some align_width_time_samples \<Rightarrow>
                  let (min_trace, max_trace, min_sample, max_sample) =
                        window_box n_traces n_time_samples window;
                      expanded_min_trace = max 0 (min_trace - align_width_traces);
                      expanded_max_trace = min (int n_traces - 1) (max_trace + align_width_traces);
                      expanded_min_sample = max 0 (min_sample - align_width_time_samples);
                      expanded_max_sample =
                        min (int n_time_samples - 1) (max_sample + align_width_time_samples)
                  in (case for_range expanded_min_trace expanded_max_trace
                             (\<lambda>i. for_range expanded_min_sample expanded_max_sample
                                     (\<lambda>j m. if \<not> window ! nat i ! nat j then mark m i j
                                             else Some m))
                             (replicate n_traces (replicate n_time_samples False)) of
                        None \<Rightarrow> None
                      | Some surrounding_mask \<Rightarrow>
                          let rms_surrounding =
                                (if has_true surrounding_mask
                                 then calculateRMS seismic_data surrounding_mask
                                 else rms_in_window)
                          in if flt (round32 (1 / 1000000000)) rms_in_window
                             then Some (fdiv rms_surrounding rms_in_window)
                             else Some (Fin 1))))"

definition amplifySeismicWindow ::
  "SeismicData \<Rightarrow> float \<Rightarrow> Point list \<Rightarrow> ProcessingMode \<Rightarrow> float \<Rightarrow> int \<Rightarrow> float
     \<Rightarrow> TransitionMode \<Rightarrow> int \<Rightarrow> float \<Rightarrow> amplify_error + AmplifyResult" where
  "amplifySeismicWindow seismic_data dt_ms target_window mode scale_factor
       transition_width_traces transition_width_time_ms transition_mode
       align_width_traces align_width_time_ms =
     (if seismic_data = [] \<or> seismic_data ! 0 = [] then Inl InvalidArgument
      else
        let n_traces = length seismic_data;
            n_time_samples = length (seismic_data ! 0);
            result = AmplifyResult_init n_traces n_time_samples
        in (case createWindowMask (n_traces, n_time_samples) target_window dt_ms of
              None \<Rightarrow> Inl UndefinedBehaviour
            | Some window \<Rightarrow>
                if target_window = [] then Inr (result\<lparr>output_data := seismic_data\<rparr>)
                else if \<not> has_true window then Inr (result\<lparr>output_data := seismic_data\<rparr>)
                else
                  let blending_mask =
                        createTransitionMask (n_traces, n_time_samples) window
                          transition_width_traces transition_width_time_ms dt_ms transition_mode
                  in (case target_amplification seismic_data dt_ms window mode scale_factor
                             align_width_traces align_width_time_ms of
                        None \<Rightarrow> Inl UndefinedBehaviour
                      | Some gain \<Rightarrow>
                          let multiplier =
                                map (\<lambda>i. map (\<lambda>j. fadd (Fin 1)
                                                      (fmul (blending_mask ! i ! j)
                                                            (fsub gain (Fin 1))))
                                            [0..<n_time_samples])
                                  [0..<n_traces]
                          in Inr \<lparr>output_data =
                                    map (\<lambda>i. map (\<lambda>j. fmul (seismic_data ! i ! j)
                                                          (multiplier ! i ! j))
                                                [0..<n_time_samples])
                                      [0..<n_traces],
                                  multiplier_mask = multiplier,
                                  window_indices = window\<rparr>)))"


subsection \<open>Shapes\<close>

text \<open>A two-dimensional array of \<open>n\<close> traces with \<open>k\<close> samples each.\<close>

definition has_shape :: "nat \<Rightarrow> nat \<Rightarrow> 'a list list \<Rightarrow> bool" where
  "has_shape n k m \<longleftrightarrow> length m = n \<and> list_all (\<lambda>row. length row = k) m"

declare for_range.simps [simp del]


section \<open>Properties of rounding\<close>

text \<open>
  A value \<open>m * 2 ^ e\<close> whose significand \<open>m\<close> fits the precision and whose exponent
  \<open>e\<close> is not below the least one is rounded to itself; other values are rounded within
  their binade.
\<close>

lemma pow2_powr: "pow2 q = 2 powr (of_int q)"
  by (auto simp add: pow2_def powr_realpow[symmetric] powr_minus divide_simps)

lemma pow2_pos: "0 < pow2 q"
  by (simp add: pow2_powr)

lemma pow2_add: "pow2 (a + b) = pow2 a * pow2 b"
  by (simp add: pow2_powr powr_add)

lemma pow2_mono: "a \<le> b \<Longrightarrow> pow2 a \<le> pow2 b"
  by (simp add: pow2_powr)

lemma pow2_less_iff: "pow2 a < pow2 b \<longleftrightarrow> a < b"
  by (simp add: pow2_powr)

lemma pow2_nat: "pow2 (int n) = 2 ^ n"
  by (simp add: pow2_def)

lemma round_half_even_int: "round_half_even (of_int z) = z"
  by (simp add: round_half_even_def)

lemma quantum_exp_cases:
  "quantum_exp p qmin k a = qmin \<or> pow2 (quantum_exp p qmin k a + int p - 1) \<le> a"
  by (induction k) auto

lemma round_fp_exact:
  assumes x: "x = of_int m * pow2 e"
    and m: "\<bar>m\<bar> < 2 ^ p"
    and e: "qmin \<le> e"
    and r: "\<bar>x\<bar> < pow2 emax"
  shows "round_fp p qmin emax x = Fin x"
proof (cases "x = 0")
  case True
  then show ?thesis by (simp add: round_fp_def)
next
  case False
  define q where "q = quantum_exp p qmin (nat (emax - int p - qmin)) \<bar>x\<bar>"
  have qe: "q \<le> e"
  proof (rule ccontr)
    assume "\<not> q \<le> e"
    then have lt: "e < q" by simp
    with e have "q \<noteq> qmin" by simp
    with quantum_exp_cases[of p qmin "nat (emax - int p - qmin)" "\<bar>x\<bar>"]
    have le: "pow2 (q + int p - 1) \<le> \<bar>x\<bar>" by (simp add: q_def)
    have "\<bar>x\<bar> = of_int \<bar>m\<bar> * pow2 e" using x pow2_pos[of e] by (simp add: abs_mult)
    also have "\<dots> < 2 ^ p * pow2 e"
    proof -
      from m have "real_of_int \<bar>m\<bar> < real_of_int (2 ^ p)" by (simp only: of_int_less_iff)
      then have "real_of_int \<bar>m\<bar> < 2 ^ p" by simp
      then show ?thesis using pow2_pos[of e] by simp
    qed
    also have "\<dots> = pow2 (int p + e)" by (simp add: pow2_add pow2_nat)
    finally have "pow2 (q + int p - 1) < pow2 (int p + e)" using le by simp
    then have "q + int p - 1 < int p + e" by (simp add: pow2_less_iff)
    with lt show False by simp
  qed
  have "pow2 e = pow2 (e - q) * pow2 q" by (simp add: pow2_add[symmetric])
  also have "pow2 (e - q) = of_int (2 ^ nat (e - q))" using qe by (simp add: pow2_def)
  finally have pe: "pow2 e = of_int (2 ^ nat (e - q)) * pow2 q" .
  have xq: "x / pow2 q = of_int (m * 2 ^ nat (e - q))"
    using pow2_pos[of q] by (simp add: x pe)
  have restore: "of_int (m * 2 ^ nat (e - q)) * pow2 q = x"
    using xq pow2_pos[of q] by (simp add: field_simps)
  show ?thesis
    using False r restore
    by (simp add: round_fp_def Let_def q_def[symmetric] xq round_half_even_int del: of_int_mult of_int_power)
qed

lemma round32_exact:
  "x = of_int m * pow2 e \<Longrightarrow> \<bar>m\<bar> < 2 ^ 24 \<Longrightarrow> - 149 \<le> e \<Longrightarrow> \<bar>x\<bar> < 2 ^ 128 \<Longrightarrow> round32 x = Fin x"
  unfolding round32_def by (rule round_fp_exact) (simp_all add: pow2_def)

lemma round64_exact:
  "x = of_int m * pow2 e \<Longrightarrow> \<bar>m\<bar> < 2 ^ 53 \<Longrightarrow> - 1074 \<le> e \<Longrightarrow> \<bar>x\<bar> < 2 ^ 1024 \<Longrightarrow> round64 x = Fin x"
  unfolding round64_def by (rule round_fp_exact) (simp_all add: pow2_def)

lemma round32_0: "round32 0 = Fin 0"
  by (simp add: round32_def round_fp_def)

lemma round32_1: "round32 1 = Fin 1"
  by (rule round32_exact[of _ 1 0]) (simp_all add: pow2_def)

lemma round32_numeral:
  assumes "(numeral w :: int) < 16777216"
  shows "round32 (numeral w) = Fin (numeral w)"
proof (rule round32_exact[of _ "numeral w" 0])
  from assms have "real_of_int (numeral w) < real_of_int 16777216" by (simp only: of_int_less_iff)
  then have lt: "(numeral w :: real) < 16777216" by simp
  show "(numeral w :: real) = of_int (numeral w) * pow2 0" by (simp add: pow2_def)
  show "\<bar>numeral w :: int\<bar> < 2 ^ 24" using assms by simp
  show "- 149 \<le> (0 :: int)" by simp
  have "(numeral w :: real) < 2 ^ 128" using lt by (rule less_trans) simp
  then show "\<bar>numeral w :: real\<bar> < 2 ^ 128" by (simp only: abs_numeral)
qed

lemma round32_7_4: "round32 (7 / 4) = Fin (7 / 4)"
  by (rule round32_exact[of _ 7 "- 2"]) (simp_all add: pow2_def)

lemmas round_exact = round32_0 round32_1 round32_numeral round32_7_4

lemma quantum_exp_eq:
  "qmin \<le> q \<Longrightarrow> q \<le> qmin + int k \<Longrightarrow> q = qmin \<or> pow2 (q + int p - 1) \<le> a \<Longrightarrow>
   a < pow2 (q + int p) \<Longrightarrow> quantum_exp p qmin k a = q"
proof (induction k)
  case 0
  then show ?case by simp
next
  case (Suc k)
  show ?case
  proof (cases "pow2 (qmin + int (Suc k) + int p - 1) \<le> a")
    case True
    with Suc.prems(4) have "pow2 (qmin + int (Suc k) + int p - 1) < pow2 (q + int p)" by simp
    then have "qmin + int (Suc k) + int p - 1 < q + int p" by (simp only: pow2_less_iff)
    with Suc.prems(2) have "q = qmin + int (Suc k)" by simp
    with True show ?thesis by simp
  next
    case False
    have "q \<noteq> qmin + int (Suc k)"
    proof
      assume eq: "q = qmin + int (Suc k)"
      then have "q \<noteq> qmin" by simp
      with Suc.prems(3) have "pow2 (q + int p - 1) \<le> a" by simp
      with eq False show False by simp
    qed
    with Suc.prems(2) have "q \<le> qmin + int k" by simp
    from Suc.IH[OF Suc.prems(1) this Suc.prems(3) Suc.prems(4)] False show ?thesis by simp
  qed
qed

lemma round32_binade:
  assumes "x \<noteq> 0" and "- 149 \<le> q" and "q \<le> 104"
    and "q = - 149 \<or> pow2 (q + 23) \<le> \<bar>x\<bar>" and "\<bar>x\<bar> < pow2 (q + 24)"
  shows "round32 x =
           (if pow2 128 \<le> \<bar>of_int (round_half_even (x / pow2 q)) * pow2 q\<bar>
            then signed_inf (0 < x)
            else Fin (of_int (round_half_even (x / pow2 q)) * pow2 q))"
proof -
  have "quantum_exp 24 (- 149) (nat (128 - int 24 - (- 149))) \<bar>x\<bar> = q"
    using assms(2-5) by (intro quantum_exp_eq) (simp_all add: add.commute)
  with assms(1) show ?thesis by (simp add: round32_def round_fp_def Let_def)
qed

text \<open>The literal \<^verbatim>\<open>0.1f\<close> and the quotient \<^verbatim>\<open>0.5f / 0.1f\<close>, which rounds up to 5.\<close>

lemma round32_tenth: "round32 (1 / 10) = Fin (13421773 / 134217728)"
  by (subst round32_binade[of _ "- 27"]) (simp_all add: pow2_def round_half_even_def)

lemma round32_half_by_tenth: "round32 (67108864 / 13421773) = Fin 5"
  by (subst round32_binade[of _ "- 21"]) (simp_all add: pow2_def round_half_even_def)

lemma round64_binade:
  assumes "x \<noteq> 0" and "- 1074 \<le> q" and "q \<le> 971"
    and "q = - 1074 \<or> pow2 (q + 52) \<le> \<bar>x\<bar>" and "\<bar>x\<bar> < pow2 (q + 53)"
  shows "round64 x =
           (if pow2 1024 \<le> \<bar>of_int (round_half_even (x / pow2 q)) * pow2 q\<bar>
            then signed_inf (0 < x)
            else Fin (of_int (round_half_even (x / pow2 q)) * pow2 q))"
proof -
  have "quantum_exp 53 (- 1074) (nat (1024 - int 53 - (- 1074))) \<bar>x\<bar> = q"
    using assms(2-5) by (intro quantum_exp_eq) (simp_all add: add.commute)
  with assms(1) show ?thesis by (simp add: round64_def round_fp_def Let_def)
qed

text \<open>
  The \<^verbatim>\<open>double\<close> nearest 0.0006 lies below 0.0006, and its \<^verbatim>\<open>double\<close> product
  with \<^verbatim>\<open>1e6\<close> is 600.
\<close>

lemma round64_6e_4: "round64 (6 / 10000) = Fin (5534023222112865 / 9223372036854775808)"
  by (subst round64_binade[of _ "- 63"]) (simp_all add: pow2_def round_half_even_def)


section \<open>Properties of the trace file writer\<close>

subsection \<open>The IEEE to IBM conversion\<close>

lemma key_lt4: "unat ((x::32 word) AND 3) < 4"
proof -
  have "unat (x AND 3) \<le> unat (3 :: 32 word)"
    by (rule word_and_le1 [THEN word_le_nat_alt [THEN iffD1]])
  then show ?thesis by simp
qed

text \<open>
  C7 (as amended). \<open>ieeeToIbm\<close> returns 0 exactly when the pattern without its sign bit
  is zero (positive and negative zero). Every other input is converted with the entry
  \<open>ix\<close> of the two tables, where \<open>ix\<close> is the value of bits 23 and 24 of the pattern:
  the two low bits of the exponent field, not bits of the mantissa field (bits 0 to 22).
\<close>

theorem ieeeToIbm_tables:
  "ieeeToIbm ieee =
     (if ieee AND 0x7fffffff = 0 then 0
      else let ix = unat (drop_bit 23 ieee AND 3) in
        (drop_bit 3 ([2, 4, 8, 1] ! ix * (ieee AND 0x007fffff))
           + (drop_bit 1 (ieee AND 0x7e000000)
                + [0x21200000, 0x21400000, 0x21800000, 0x22100000] ! ix))
        OR (ieee AND 0x80000000))
   \<and> unat (drop_bit 23 ieee AND 3) < 4"
  by (auto simp add: ieeeToIbm_def Let_def it_tab_def mt_tab_def key_lt4)

text \<open>The theorem at 1.5 (pattern 3FC00000, IBM 41180000) and at -100 (C2C80000, C2640000).\<close>

theorem ieeeToIbm_tables_witness:
  "ieeeToIbm 0x3FC00000 = 0x41180000 \<and> ieeeToIbm 0xC2C80000 = 0xC2640000"
  using ieeeToIbm_tables[of "0x3FC00000"] ieeeToIbm_tables[of "0xC2C80000"]
  by (simp add: Let_def)

text \<open>
  C7 as stated fails at 1.0 (pattern 3F800000): its two high mantissa bits are 00, and
  the entry 0 of the tables gives 40200000 (0.125 in IBM format); the source takes entry
  3 and returns 41100000 (1.0).
\<close>

theorem ieeeToIbm_key_counterexample:
  "ieeeToIbm 0x3F800000 = 0x41100000 \<and> ieeeToIbm_mantissa_keyed 0x3F800000 = 0x40200000"
  by (simp add: ieeeToIbm_def ieeeToIbm_mantissa_keyed_def Let_def it_tab_def mt_tab_def)

subsection \<open>Validation in \<open>writeFile\<close>\<close>

text \<open>
  C10. With no trace in the volume the call fails with \<open>DataEmpty\<close> whatever the trace
  headers are, and the target path holds what it held before.
\<close>

theorem writeFile_empty_data:
  "writeFile w tgt [] sample_interval trace_headers = (Inl DataEmpty, bytes tgt)"
  by (simp add: writeFile_def)

lemma wf_ragged:
  "data \<noteq> [] \<Longrightarrow> list_ex (\<lambda>i. length (data ! i) \<noteq> length (data ! 0)) [1..<length data]
    \<Longrightarrow> writeFile w tgt data si hs = (Inl InconsistentTraceLength, bytes tgt)"
  by (simp add: writeFile_def Let_def)

lemma wf_count:
  "data \<noteq> [] \<Longrightarrow> \<not> list_ex (\<lambda>i. length (data ! i) \<noteq> length (data ! 0)) [1..<length data]
    \<Longrightarrow> length hs \<noteq> length data
    \<Longrightarrow> writeFile w tgt data si hs = (Inl HeaderCountMismatch, bytes tgt)"
  by (simp add: writeFile_def Let_def)

lemma wf_malformed:
  "data \<noteq> [] \<Longrightarrow> \<not> list_ex (\<lambda>i. length (data ! i) \<noteq> length (data ! 0)) [1..<length data]
    \<Longrightarrow> length hs = length data
    \<Longrightarrow> list_ex (\<lambda>i. length (hs ! i) \<noteq> 240) [0..<length data]
    \<Longrightarrow> writeFile w tgt data si hs = (Inl MalformedHeader, bytes tgt)"
  by (simp add: writeFile_def Let_def)

lemma wf_create:
  "data \<noteq> [] \<Longrightarrow> \<not> list_ex (\<lambda>i. length (data ! i) \<noteq> length (data ! 0)) [1..<length data]
    \<Longrightarrow> length hs = length data
    \<Longrightarrow> \<not> list_ex (\<lambda>i. length (hs ! i) \<noteq> 240) [0..<length data]
    \<Longrightarrow> \<not> creatable tgt
    \<Longrightarrow> writeFile w tgt data si hs = (Inl CannotCreateOutput, bytes tgt)"
  by (simp add: writeFile_def Let_def)

lemma wf_body:
  "data \<noteq> [] \<Longrightarrow> \<not> list_ex (\<lambda>i. length (data ! i) \<noteq> length (data ! 0)) [1..<length data]
    \<Longrightarrow> length hs = length data
    \<Longrightarrow> \<not> list_ex (\<lambda>i. length (hs ! i) \<noteq> 240) [0..<length data]
    \<Longrightarrow> creatable tgt
    \<Longrightarrow> writeTextHeader w \<lparr>written = [], room = capacity tgt, good = True\<rparr> = (r1, f1)
    \<Longrightarrow> writeBinaryHeader w f1 si (length (data ! 0)) = (r2, f2)
    \<Longrightarrow> writeTraces f2 data hs = (r3, f3)
    \<Longrightarrow> writeFile w tgt data si hs =
          (case r1 of Inl e \<Rightarrow> (Inl e, Some (written f1)) | Inr u \<Rightarrow>
             (case r2 of Inl e \<Rightarrow> (Inl e, Some (written f2)) | Inr u \<Rightarrow>
                (case r3 of Inl e \<Rightarrow> (Inl e, Some (written f3)) | Inr u \<Rightarrow> (Inr (), Some (written f3)))))"
  unfolding writeFile_def Let_def
  by (simp split: sum.split)
lemma write_samples_errors:
  "fst (write_samples strm i j xs) = Inl e \<Longrightarrow> \<exists>a b. e = WriteFailedSample a b"
  by (induction xs arbitrary: strm j) (auto simp add: Let_def split: if_splits)

lemma write_traces_errors:
  "fst (write_traces strm i trs hs) = Inl e \<Longrightarrow>
     (\<exists>a b. e = WriteFailedSample a b) \<or> (\<exists>a. e = WriteFailedTraceHeader a)"
proof (induction trs arbitrary: strm i)
  case Nil
  then show ?case by simp
next
  case (Cons tr trs)
  show ?case
  proof (cases "good (stream_write strm (hs ! i))")
    case False
    with Cons.prems show ?thesis by (auto simp add: Let_def)
  next
    case True
    obtain r f2 where ws: "write_samples (stream_write strm (hs ! i)) i 0 tr = (r, f2)"
      by (cases "write_samples (stream_write strm (hs ! i)) i 0 tr")
    show ?thesis
    proof (cases r)
      case (Inl e')
      with ws True Cons.prems have "e = e'" by (simp add: Let_def)
      moreover from ws Inl have "fst (write_samples (stream_write strm (hs ! i)) i 0 tr) = Inl e'"
        by simp
      ultimately show ?thesis using write_samples_errors by blast
    next
      case (Inr u)
      with ws True Cons.prems have "fst (write_traces f2 (Suc i) trs hs) = Inl e"
        by (simp add: Let_def)
      then show ?thesis by (rule Cons.IH)
    qed
  qed
qed

lemma ragged_iff:
  "list_ex (\<lambda>i. length (data ! i) \<noteq> length (data ! 0)) [1..<length data]
     \<longleftrightarrow> (\<exists>i<length data. length (data ! i) \<noteq> length (data ! 0))"
proof
  assume "list_ex (\<lambda>i. length (data ! i) \<noteq> length (data ! 0)) [1..<length data]"
  then show "\<exists>i<length data. length (data ! i) \<noteq> length (data ! 0)"
    by (auto simp add: list_ex_iff)
next
  assume "\<exists>i<length data. length (data ! i) \<noteq> length (data ! 0)"
  then obtain i where i: "i < length data" "length (data ! i) \<noteq> length (data ! 0)" by blast
  then have "i \<noteq> 0" by (cases i) auto
  with i have "i \<in> set [1..<length data]" by simp
  with i(2) show "list_ex (\<lambda>i. length (data ! i) \<noteq> length (data ! 0)) [1..<length data]"
    unfolding list_ex_iff by blast
qed

lemma malformed_iff:
  "list_ex (\<lambda>i. length (hs ! i) \<noteq> 240) [0..<n] \<longleftrightarrow> (\<exists>i<n. length (hs ! i) \<noteq> 240)"
  by (auto simp add: list_ex_iff)

lemma writeTextHeader_errors:
  "writeTextHeader w strm = (Inl e, f1) \<Longrightarrow> e = WriteFailedTextHeader"
  by (auto simp add: writeTextHeader_def Let_def split: if_splits)

lemma writeBinaryHeader_errors:
  "writeBinaryHeader w strm si n = (Inl e, f1) \<Longrightarrow> e = WriteFailedBinaryHeader \<or> e = UndefinedConversion"
  by (auto simp add: writeBinaryHeader_def Let_def split: if_splits option.splits)

lemma writeFile_after_validation:
  assumes ne: "data \<noteq> []"
    and v1: "\<not> list_ex (\<lambda>i. length (data ! i) \<noteq> length (data ! 0)) [1..<length data]"
    and v2: "length hs = length data"
    and v3: "\<not> list_ex (\<lambda>i. length (hs ! i) \<noteq> 240) [0..<length data]"
  shows "fst (writeFile w tgt data si hs) \<notin>
           {Inl DataEmpty, Inl InconsistentTraceLength, Inl HeaderCountMismatch, Inl MalformedHeader}"
proof (cases "creatable tgt")
  case False
  then show ?thesis using wf_create[OF ne v1 v2 v3] by simp
next
  case True
  let ?strm = "\<lparr>written = [], room = capacity tgt, good = True\<rparr>"
  obtain r1 f1 where t: "writeTextHeader w ?strm = (r1, f1)" by (cases "writeTextHeader w ?strm")
  obtain r2 f2 where b: "writeBinaryHeader w f1 si (length (data ! 0)) = (r2, f2)"
    by (cases "writeBinaryHeader w f1 si (length (data ! 0))")
  obtain r3 f3 where d: "writeTraces f2 data hs = (r3, f3)" by (cases "writeTraces f2 data hs")
  note body = wf_body[OF ne v1 v2 v3 True t b d]
  show ?thesis
  proof (cases r1)
    case (Inl e)
    with t have "e = WriteFailedTextHeader" by (simp add: writeTextHeader_errors)
    with Inl body show ?thesis by simp
  next
    case r1: (Inr u1)
    show ?thesis
    proof (cases r2)
      case (Inl e)
      with b have "e = WriteFailedBinaryHeader \<or> e = UndefinedConversion"
        using writeBinaryHeader_errors by blast
      with Inl r1 body show ?thesis by auto
    next
      case r2: (Inr u2)
      show ?thesis
      proof (cases r3)
        case (Inl e)
        with d have "fst (write_traces f2 0 data hs) = Inl e" by (simp add: writeTraces_def)
        then have "(\<exists>a b. e = WriteFailedSample a b) \<or> (\<exists>a. e = WriteFailedTraceHeader a)"
          by (rule write_traces_errors)
        with Inl r1 r2 body show ?thesis by auto
      next
        case (Inr u3)
        with r1 r2 body show ?thesis by simp
      qed
    qed
  qed
qed

text \<open>
  C5. For a volume with at least one trace: the call fails with
  \<open>InconsistentTraceLength\<close> exactly when some trace's length differs from trace 0's;
  otherwise with \<open>HeaderCountMismatch\<close> exactly when the number of headers differs from
  the number of traces; otherwise with \<open>MalformedHeader\<close> exactly when some header is not
  240 bytes long; and after any of the three the target path holds what it held before.
\<close>

theorem writeFile_validation:
  "data \<noteq> [] \<Longrightarrow>
     (fst (writeFile w tgt data si hs) = Inl InconsistentTraceLength
        \<longleftrightarrow> (\<exists>i<length data. length (data ! i) \<noteq> length (data ! 0)))
   \<and> (\<not> (\<exists>i<length data. length (data ! i) \<noteq> length (data ! 0)) \<longrightarrow>
        (fst (writeFile w tgt data si hs) = Inl HeaderCountMismatch
           \<longleftrightarrow> length hs \<noteq> length data))
   \<and> (\<not> (\<exists>i<length data. length (data ! i) \<noteq> length (data ! 0)) \<and> length hs = length data \<longrightarrow>
        (fst (writeFile w tgt data si hs) = Inl MalformedHeader
           \<longleftrightarrow> (\<exists>i<length hs. length (hs ! i) \<noteq> 240)))
   \<and> (fst (writeFile w tgt data si hs)
          \<in> {Inl InconsistentTraceLength, Inl HeaderCountMismatch, Inl MalformedHeader} \<longrightarrow>
        snd (writeFile w tgt data si hs) = bytes tgt)"
proof -
  assume ne: "data \<noteq> []"
  let ?ragged = "\<exists>i<length data. length (data ! i) \<noteq> length (data ! 0)"
  let ?bad = "\<exists>i<length hs. length (hs ! i) \<noteq> 240"
  let ?r = "writeFile w tgt data si hs"
  show ?thesis
  proof (cases ?ragged)
    case True
    then have "?r = (Inl InconsistentTraceLength, bytes tgt)"
      using wf_ragged[OF ne] ragged_iff[of data] by blast
    with True show ?thesis by simp
  next
    case nr: False
    then have v1: "\<not> list_ex (\<lambda>i. length (data ! i) \<noteq> length (data ! 0)) [1..<length data]"
      using ragged_iff[of data] by blast
    show ?thesis
    proof (cases "length hs = length data")
      case False
      then have "?r = (Inl HeaderCountMismatch, bytes tgt)"
        using wf_count[OF ne v1] by blast
      with nr False show ?thesis by simp
    next
      case eq: True
      show ?thesis
      proof (cases ?bad)
        case True
        then have "list_ex (\<lambda>i. length (hs ! i) \<noteq> 240) [0..<length data]"
          using malformed_iff[of hs "length data"] eq by simp
        then have "?r = (Inl MalformedHeader, bytes tgt)"
          using wf_malformed[OF ne v1 eq] by blast
        with nr eq True show ?thesis by simp
      next
        case False
        then have v3: "\<not> list_ex (\<lambda>i. length (hs ! i) \<noteq> 240) [0..<length data]"
          using malformed_iff[of hs "length data"] eq by simp
        have "fst ?r \<notin> {Inl DataEmpty, Inl InconsistentTraceLength, Inl HeaderCountMismatch,
                          Inl MalformedHeader}"
          by (rule writeFile_after_validation[OF ne v1 eq v3])
        with nr eq False show ?thesis by simp
      qed
    qed
  qed
qed

theorem writeFile_validation_witness:
  "fst (writeFile \<lparr>text_header = [], binary_header = [], reference_trace_headers = []\<rparr>
          \<lparr>creatable = True, capacity = 0, bytes = None\<rparr> [[0], [0, 0]] (Fin 0) []) = Inl InconsistentTraceLength
   \<and> fst (writeFile \<lparr>text_header = [], binary_header = [], reference_trace_headers = []\<rparr>
          \<lparr>creatable = True, capacity = 0, bytes = None\<rparr> [[0], [0]] (Fin 0) [[]]) = Inl HeaderCountMismatch
   \<and> fst (writeFile \<lparr>text_header = [], binary_header = [], reference_trace_headers = []\<rparr>
          \<lparr>creatable = True, capacity = 0, bytes = None\<rparr> [[0], [0]] (Fin 0) [[], []]) = Inl MalformedHeader
   \<and> snd (writeFile \<lparr>text_header = [], binary_header = [], reference_trace_headers = []\<rparr>
          \<lparr>creatable = True, capacity = 0, bytes = None\<rparr> [[0], [0]] (Fin 0) [[], []]) = None"
proof -
  let ?w = "\<lparr>text_header = [], binary_header = [], reference_trace_headers = []\<rparr>"
  let ?t = "\<lparr>creatable = True, capacity = 0, bytes = None\<rparr>"
  have r: "\<exists>i<length [[0], [0, 0 :: uint32]]. length ([[0], [0, 0 :: uint32]] ! i) \<noteq> length ([[0], [0, 0 :: uint32]] ! 0)"
    by (rule exI[of _ 1]) simp
  have nr: "\<not> (\<exists>i<length [[0], [0 :: uint32]]. length ([[0], [0 :: uint32]] ! i) \<noteq> length ([[0], [0 :: uint32]] ! 0))"
    by (auto simp add: less_Suc_eq nth_Cons')
  have b: "\<exists>i<length [[], [] :: byte list]. length ([[], [] :: byte list] ! i) \<noteq> 240"
    by (rule exI[of _ 0]) simp
  have a: "fst (writeFile ?w ?t [[0], [0, 0]] (Fin 0) []) = Inl InconsistentTraceLength"
    using writeFile_validation[of "[[0], [0, 0]]" ?w ?t "Fin 0" "[]"] r by simp
  have c: "fst (writeFile ?w ?t [[0], [0]] (Fin 0) [[]]) = Inl HeaderCountMismatch"
    using writeFile_validation[of "[[0], [0]]" ?w ?t "Fin 0" "[[]]"] nr by simp
  have d: "fst (writeFile ?w ?t [[0], [0]] (Fin 0) [[], []]) = Inl MalformedHeader
           \<and> snd (writeFile ?w ?t [[0], [0]] (Fin 0) [[], []]) = None"
    using writeFile_validation[of "[[0], [0]]" ?w ?t "Fin 0" "[[], []]"] nr b by simp
  from a c d show ?thesis by simp
qed

subsection \<open>The headers of a written file\<close>















section \<open>Properties of the amplitude-tuning engine\<close>

subsection \<open>Arrays and loops\<close>

lemma has_shape_nth: "has_shape n k m \<Longrightarrow> i < n \<Longrightarrow> length (m ! i) = k"
  by (simp add: has_shape_def list_all_length)

lemma has_shape_length: "has_shape n k m \<Longrightarrow> length m = n"
  by (simp add: has_shape_def)

lemma has_shapeI: "length m = n \<Longrightarrow> (\<And>i. i < n \<Longrightarrow> length (m ! i) = k) \<Longrightarrow> has_shape n k m"
  by (simp add: has_shape_def list_all_length)

lemma has_shape_replicate: "has_shape n k (replicate n (replicate k x))"
  by (simp add: has_shape_def list_all_length)

lemma has_shape_map2:
  "has_shape n k (map (\<lambda>i. map (f i) [0..<k]) [0..<n])"
  by (simp add: has_shape_def list_all_length)

lemma nth_map2: "i < n \<Longrightarrow> j < k \<Longrightarrow> map (\<lambda>i. map (f i) [0..<k]) [0..<n] ! i ! j = f i j"
  by simp

lemma has_shape_update:
  "has_shape n k m \<Longrightarrow> length row = k \<Longrightarrow> has_shape n k (m[i := row])"
  by (cases "i < length m") (auto simp add: has_shape_def list_all_length nth_list_update)

lemma nth_update2:
  "has_shape n k m \<Longrightarrow> i < n \<Longrightarrow> j < k \<Longrightarrow> i' < n \<Longrightarrow> j' < k \<Longrightarrow>
     m[i := (m ! i)[j := v]] ! i' ! j' = (if i' = i \<and> j' = j then v else m ! i' ! j')"
  by (auto simp add: has_shape_def list_all_length nth_list_update)

lemma for_range_rule:
  assumes step: "\<And>i s. lo \<le> i \<Longrightarrow> i \<le> hi \<Longrightarrow> I i s \<Longrightarrow> \<exists>s'. body i s = Some s' \<and> I (i + 1) s'"
  shows "lo \<le> i \<Longrightarrow> i \<le> hi + 1 \<Longrightarrow> I i s \<Longrightarrow> \<exists>s'. for_range i hi body s = Some s' \<and> I (hi + 1) s'"
proof (induction "nat (hi + 1 - i)" arbitrary: i s)
  case 0
  then have "i = hi + 1" by simp
  with "0.prems" show ?case by (subst for_range.simps) simp
next
  case (Suc d)
  then have le: "i \<le> hi" by simp
  from step[OF Suc.prems(1) le Suc.prems(3)] obtain s1
    where b: "body i s = Some s1" and I1: "I (i + 1) s1" by blast
  have "d = nat (hi + 1 - (i + 1))" using Suc.hyps(2) by simp
  from Suc.hyps(1)[OF this _ _ I1] Suc.prems(1) le
  obtain s' where "for_range (i + 1) hi body s1 = Some s'" "I (hi + 1) s'" by auto
  with le b show ?case by (subst for_range.simps) simp
qed

lemma for_range_empty: "hi < lo \<Longrightarrow> for_range lo hi body s = Some s"
  by (subst for_range.simps) simp

lemma mark_ok:
  assumes "has_shape n k m" "0 \<le> t" "t < int n" "0 \<le> s" "s < int k"
  shows "\<exists>m'. mark m t s = Some m' \<and> has_shape n k m'
           \<and> (\<forall>i<n. \<forall>j<k. m' ! i ! j = (m ! i ! j \<or> (int i = t \<and> int j = s)))"
proof -
  have tn: "nat t < n" and sk: "nat s < k" using assms by auto
  have len: "length (m ! nat t) = k" using assms(1) tn by (rule has_shape_nth)
  have mk: "mark m t s = Some (m[nat t := (m ! nat t)[nat s := True]])"
    using assms tn sk len by (simp add: mark_def has_shape_length)
  have sh: "has_shape n k (m[nat t := (m ! nat t)[nat s := True]])"
    using assms(1) len by (simp add: has_shape_update)
  have cells: "\<forall>i<n. \<forall>j<k. m[nat t := (m ! nat t)[nat s := True]] ! i ! j
                  = (m ! i ! j \<or> (int i = t \<and> int j = s))"
    using assms(2,4) by (auto simp add: nth_update2[OF assms(1) tn sk])
  from mk sh cells show ?thesis by simp
qed

lemma for_range_preserves:
  assumes step: "\<And>i s s'. P s \<Longrightarrow> body i s = Some s' \<Longrightarrow> P s'"
  shows "P s \<Longrightarrow> for_range i hi body s = Some s' \<Longrightarrow> P s'"
proof (induction "nat (hi + 1 - i)" arbitrary: i s)
  case 0
  then have "hi < i" by simp
  with "0.prems" show ?case by (simp add: for_range_empty)
next
  case (Suc d)
  then have le: "i \<le> hi" by simp
  from Suc.prems(2) le obtain s1 where b: "body i s = Some s1"
    and r: "for_range (i + 1) hi body s1 = Some s'"
    by (subst (asm) for_range.simps) (auto split: option.splits)
  have d: "d = nat (hi + 1 - (i + 1))" using Suc.hyps(2) by simp
  from step[OF Suc.prems(1) b] have "P s1" .
  from Suc.hyps(1)[OF d this r] show ?case .
qed

lemma mark_shape:
  assumes "has_shape n k m" "mark m t s = Some m'"
  shows "has_shape n k m'"
proof -
  from assms(2) have tn: "nat t < length m" and m': "m' = m[nat t := (m ! nat t)[nat s := True]]"
    by (auto simp add: mark_def split: if_splits)
  from assms(1) tn have "length (m ! nat t) = k" by (simp add: has_shape_def list_all_length)
  then have "length ((m ! nat t)[nat s := True]) = k" by simp
  with assms(1) m' show ?thesis by (simp add: has_shape_update)
qed

lemma fill_row:
  assumes sh: "has_shape n k m" and t: "0 \<le> t" "t < int n"
    and lo: "0 \<le> lo" and hi: "hi < int k" and le: "lo \<le> hi + 1"
  shows "\<exists>m'. for_range lo hi (\<lambda>s m. mark m t s) m = Some m' \<and> has_shape n k m'
           \<and> (\<forall>i<n. \<forall>j<k. m' ! i ! j = (m ! i ! j \<or> (int i = t \<and> lo \<le> int j \<and> int j \<le> hi)))"
proof -
  let ?I = "\<lambda>s m'. has_shape n k m'
              \<and> (\<forall>i<n. \<forall>j<k. m' ! i ! j = (m ! i ! j \<or> (int i = t \<and> lo \<le> int j \<and> int j < s)))"
  have step: "\<exists>s'. mark x t s = Some s' \<and> ?I (s + 1) s'" if "lo \<le> s" "s \<le> hi" "?I s x" for s x
  proof -
    from that lo hi have s0: "0 \<le> s" and sk: "s < int k" by auto
    from that have shx: "has_shape n k x" by simp
    from mark_ok[OF shx t s0 sk] obtain m' where
      m: "mark x t s = Some m'" and shm: "has_shape n k m'"
      and c: "\<forall>i<n. \<forall>j<k. m' ! i ! j = (x ! i ! j \<or> (int i = t \<and> int j = s))" by blast
    have "\<forall>i<n. \<forall>j<k. m' ! i ! j = (m ! i ! j \<or> (int i = t \<and> lo \<le> int j \<and> int j < s + 1))"
      using c that(1,3) by auto
    with m shm show ?thesis by simp
  qed
  have init: "?I lo m" using sh by auto
  have "\<exists>m'. for_range lo hi (\<lambda>s m. mark m t s) m = Some m' \<and> ?I (hi + 1) m'"
    by (rule for_range_rule[where I = ?I and lo = lo, OF step _ le init]) simp_all
  then obtain m' where r: "for_range lo hi (\<lambda>s m. mark m t s) m = Some m'"
    and sh': "has_shape n k m'"
    and c: "\<forall>i<n. \<forall>j<k. m' ! i ! j = (m ! i ! j \<or> (int i = t \<and> lo \<le> int j \<and> int j < hi + 1))"
    by blast
  have "m' ! i ! j = (m ! i ! j \<or> (int i = t \<and> lo \<le> int j \<and> int j \<le> hi))"
    if "i < n" "j < k" for i j
  proof -
    from c that have "m' ! i ! j = (m ! i ! j \<or> (int i = t \<and> lo \<le> int j \<and> int j < hi + 1))"
      by blast
    then show ?thesis by simp
  qed
  with r sh' show ?thesis by blast
qed

lemma fill_rect:
  assumes sh: "has_shape n k m"
    and lt: "0 \<le> lo_t" and ht: "hi_t < int n" and let': "lo_t \<le> hi_t + 1"
    and lo: "0 \<le> lo" and hi: "hi < int k" and le: "lo \<le> hi + 1"
  shows "\<exists>m'. for_range lo_t hi_t (\<lambda>t. for_range lo hi (\<lambda>s m. mark m t s)) m = Some m'
           \<and> has_shape n k m'
           \<and> (\<forall>i<n. \<forall>j<k. m' ! i ! j =
                 (m ! i ! j \<or> (lo_t \<le> int i \<and> int i \<le> hi_t \<and> lo \<le> int j \<and> int j \<le> hi)))"
proof -
  let ?I = "\<lambda>t m'. has_shape n k m'
              \<and> (\<forall>i<n. \<forall>j<k. m' ! i ! j =
                    (m ! i ! j \<or> (lo_t \<le> int i \<and> int i < t \<and> lo \<le> int j \<and> int j \<le> hi)))"
  have step: "\<exists>s'. for_range lo hi (\<lambda>s m. mark m t s) x = Some s' \<and> ?I (t + 1) s'"
    if "lo_t \<le> t" "t \<le> hi_t" "?I t x" for t x
  proof -
    from that lt ht have t0: "0 \<le> t" and tn: "t < int n" by auto
    from that have shx: "has_shape n k x" by simp
    from fill_row[OF shx t0 tn lo hi le] obtain m' where
      m: "for_range lo hi (\<lambda>s m. mark m t s) x = Some m'" and shm: "has_shape n k m'"
      and c: "\<forall>i<n. \<forall>j<k. m' ! i ! j = (x ! i ! j \<or> (int i = t \<and> lo \<le> int j \<and> int j \<le> hi))"
      by blast
    have "\<forall>i<n. \<forall>j<k. m' ! i ! j =
            (m ! i ! j \<or> (lo_t \<le> int i \<and> int i < t + 1 \<and> lo \<le> int j \<and> int j \<le> hi))"
      using c that(1,3) by auto
    with m shm show ?thesis by simp
  qed
  have init: "?I lo_t m" using sh by auto
  have "\<exists>m'. for_range lo_t hi_t (\<lambda>t. for_range lo hi (\<lambda>s m. mark m t s)) m = Some m'
          \<and> ?I (hi_t + 1) m'"
    by (rule for_range_rule[where I = ?I and lo = lo_t, OF step _ let' init]) simp_all
  then obtain m' where r: "for_range lo_t hi_t (\<lambda>t. for_range lo hi (\<lambda>s m. mark m t s)) m = Some m'"
    and sh': "has_shape n k m'"
    and c: "\<forall>i<n. \<forall>j<k. m' ! i ! j =
              (m ! i ! j \<or> (lo_t \<le> int i \<and> int i < hi_t + 1 \<and> lo \<le> int j \<and> int j \<le> hi))"
    by blast
  have "m' ! i ! j = (m ! i ! j \<or> (lo_t \<le> int i \<and> int i \<le> hi_t \<and> lo \<le> int j \<and> int j \<le> hi))"
    if "i < n" "j < k" for i j
  proof -
    from c that have "m' ! i ! j =
        (m ! i ! j \<or> (lo_t \<le> int i \<and> int i < hi_t + 1 \<and> lo \<le> int j \<and> int j \<le> hi))"
      by blast
    then show ?thesis by simp
  qed
  with r sh' show ?thesis by blast
qed

subsection \<open>Small concrete inputs\<close>

lemma upt_0_2: "[0..<2] = [0, Suc 0]"
  by (simp add: numeral_2_eq_2)

lemma upt_0_3: "[0..<3] = [0, Suc 0, 2]"
  by (simp add: numeral_3_eq_3 numeral_2_eq_2)

lemma replicate_2: "replicate 2 x = [x, x]"
  by (simp add: numeral_2_eq_2)

lemma replicate_3: "replicate 3 x = [x, x, x]"
  by (simp add: numeral_3_eq_3)

lemmas small_lists = upt_0_2 upt_0_3 replicate_2 replicate_3

lemma truncate_7_4: "truncate_real (7 / 4) = 1"
  by (simp add: truncate_real_def)

lemma point_example:
  "createWindowMask (1, 3) [\<lparr>trace = 0, time_ms = Fin 7\<rparr>] (Fin 4) = Some [[False, True, False]]"
  by (simp add: createWindowMask_def Let_def round_exact truncate_real_def mark_def small_lists)

subsection \<open>The window mask\<close>

lemma nth_replicate2: "i < n \<Longrightarrow> j < k \<Longrightarrow> replicate n (replicate k x) ! i ! j = x"
  by simp

lemma createWindowMask_rectangle:
  assumes n: "0 < n" and k: "0 < k"
    and s1: "static_cast_int (fdiv (time_ms p1) dt_ms) = Some s1"
    and s2: "static_cast_int (fdiv (time_ms p2) dt_ms) = Some s2"
  shows "\<exists>m. createWindowMask (n, k) [p1, p2] dt_ms = Some m \<and> has_shape n k m
           \<and> (\<forall>i<n. \<forall>j<k. m ! i ! j =
                 (max 0 (min (int n - 1) (min (trace p1) (trace p2))) \<le> int i
                  \<and> int i \<le> max 0 (min (int n - 1) (max (trace p1) (trace p2)))
                  \<and> max 0 (min (int k - 1) (min s1 s2)) \<le> int j
                  \<and> int j \<le> max 0 (min (int k - 1) (max s1 s2))))"
proof -
  let ?lt = "max 0 (min (int n - 1) (min (trace p1) (trace p2)))"
  let ?ht = "max 0 (min (int n - 1) (max (trace p1) (trace p2)))"
  let ?ls = "max 0 (min (int k - 1) (min s1 s2))"
  let ?hs = "max 0 (min (int k - 1) (max s1 s2))"
  let ?w = "replicate n (replicate k False)"
  have sh: "has_shape n k ?w" by (rule has_shape_replicate)
  have b: "0 \<le> ?lt" "?ht < int n" "?lt \<le> ?ht + 1" "0 \<le> ?ls" "?hs < int k" "?ls \<le> ?hs + 1"
    using n k by auto
  from fill_rect[OF sh b] obtain m where
    r: "for_range ?lt ?ht (\<lambda>t. for_range ?ls ?hs (\<lambda>s m. mark m t s)) ?w = Some m"
    and shm: "has_shape n k m"
    and c: "\<forall>i<n. \<forall>j<k. m ! i ! j =
              (?w ! i ! j \<or> (?lt \<le> int i \<and> int i \<le> ?ht \<and> ?ls \<le> int j \<and> int j \<le> ?hs))"
    by blast
  have cw: "createWindowMask (n, k) [p1, p2] dt_ms = Some m"
    using r s1 s2 by (simp add: createWindowMask_def Let_def)
  have "\<forall>i<n. \<forall>j<k. m ! i ! j = (?lt \<le> int i \<and> int i \<le> ?ht \<and> ?ls \<le> int j \<and> int j \<le> ?hs)"
    using c by simp
  with cw shm show ?thesis by blast
qed

text \<open>
  C9. For a window of two points and a grid with at least one trace and one sample, if the
  two sample indices are defined (the conversions to \<^verbatim>\<open>int\<close> are), the call returns a
  mask with at least one true cell: both index ranges are clamped into the grid and stay
  non-empty, also when the rectangle lies outside the grid.
\<close>

theorem createWindowMask_rectangle_nonempty:
  "0 < n \<Longrightarrow> 0 < k \<Longrightarrow>
   static_cast_int (fdiv (time_ms p1) dt_ms) = Some s1 \<Longrightarrow>
   static_cast_int (fdiv (time_ms p2) dt_ms) = Some s2 \<Longrightarrow>
     \<exists>m. createWindowMask (n, k) [p1, p2] dt_ms = Some m \<and> (\<exists>i<n. \<exists>j<k. m ! i ! j)"
proof -
  assume n: "0 < n" and k: "0 < k"
    and s1: "static_cast_int (fdiv (time_ms p1) dt_ms) = Some s1"
    and s2: "static_cast_int (fdiv (time_ms p2) dt_ms) = Some s2"
  let ?lt = "max 0 (min (int n - 1) (min (trace p1) (trace p2)))"
  let ?ht = "max 0 (min (int n - 1) (max (trace p1) (trace p2)))"
  let ?ls = "max 0 (min (int k - 1) (min s1 s2))"
  let ?hs = "max 0 (min (int k - 1) (max s1 s2))"
  from createWindowMask_rectangle[OF n k s1 s2] obtain m where
    cw: "createWindowMask (n, k) [p1, p2] dt_ms = Some m"
    and c: "\<forall>i<n. \<forall>j<k. m ! i ! j =
              (?lt \<le> int i \<and> int i \<le> ?ht \<and> ?ls \<le> int j \<and> int j \<le> ?hs)"
    by blast
  have i: "nat ?lt < n" and j: "nat ?ls < k" using n k by auto
  have "?lt \<le> int (nat ?lt) \<and> int (nat ?lt) \<le> ?ht \<and> ?ls \<le> int (nat ?ls) \<and> int (nat ?ls) \<le> ?hs"
    using n k by auto
  with c i j have "m ! nat ?lt ! nat ?ls" by blast
  with cw i j show ?thesis by blast
qed

theorem createWindowMask_rectangle_nonempty_witness:
  "\<exists>m. createWindowMask (5, 4)
          [\<lparr>trace = 10, time_ms = Fin 100\<rparr>, \<lparr>trace = 30, time_ms = Fin 400\<rparr>] (Fin 2) = Some m
       \<and> (\<exists>i<5. \<exists>j<4. m ! i ! j)"
proof -
  have s1: "static_cast_int (fdiv (time_ms \<lparr>trace = 10, time_ms = Fin 100\<rparr>) (Fin 2)) = Some 50"
    by (simp add: round_exact truncate_real_def)
  have s2: "static_cast_int (fdiv (time_ms \<lparr>trace = 30, time_ms = Fin 400\<rparr>) (Fin 2)) = Some 200"
    by (simp add: round_exact truncate_real_def)
  show ?thesis
    using createWindowMask_rectangle_nonempty[OF _ _ s1 s2, of 5 4] by simp
qed

text \<open>
  C4 (as amended). For a window of one point \<open>(trace, time_ms)\<close> and a grid with fewer
  than \<open>2 ^ 31\<close> traces and samples, when the \<^verbatim>\<open>float\<close> quotient \<open>time_ms / dt_ms\<close>
  (rounded to binary32, as the division computes it) is a finite value \<open>q\<close> whose
  truncation fits an \<^verbatim>\<open>int\<close>, the call marks exactly the cell \<open>(trace, s)\<close> where \<open>s\<close>
  is \<open>q\<close> with its fraction dropped (rounded towards zero, not to the nearest integer),
  when that cell is in the grid, and no cell otherwise. The witness has an exact quotient
  (7 / 4) and one that rounding changes (\<^verbatim>\<open>0.5f / 0.1f\<close>, which is 5 in binary32).
\<close>

theorem createWindowMask_single_point:
  "fdiv (time_ms p) dt_ms = Fin q \<Longrightarrow>
   - 2147483648 \<le> truncate_real q \<Longrightarrow> truncate_real q \<le> 2147483647 \<Longrightarrow>
   n < 2147483648 \<Longrightarrow> k < 2147483648 \<Longrightarrow>
     \<exists>m. createWindowMask (n, k) [p] dt_ms = Some m \<and> has_shape n k m
       \<and> (\<forall>i<n. \<forall>j<k. m ! i ! j = (int i = trace p \<and> int j = truncate_real q))"
proof -
  assume q: "fdiv (time_ms p) dt_ms = Fin q"
    and r: "- 2147483648 \<le> truncate_real q" "truncate_real q \<le> 2147483647"
  let ?s = "truncate_real q"
  let ?w = "replicate n (replicate k False)"
  have sc: "static_cast_int (fdiv (time_ms p) dt_ms) = Some ?s"
    using q r by (simp add: Let_def)
  have sh: "has_shape n k ?w" by (rule has_shape_replicate)
  show ?thesis
  proof (cases "trace p \<ge> 0 \<and> trace p < int n \<and> ?s \<ge> 0 \<and> ?s < int k")
    case True
    then have b: "0 \<le> trace p" "trace p < int n" "0 \<le> ?s" "?s < int k" by simp_all
    from mark_ok[OF sh b] obtain m where m: "mark ?w (trace p) ?s = Some m"
      and shm: "has_shape n k m"
      and c: "\<forall>i<n. \<forall>j<k. m ! i ! j = (?w ! i ! j \<or> (int i = trace p \<and> int j = ?s))" by blast
    have cw: "createWindowMask (n, k) [p] dt_ms = Some m"
      using sc True m by (simp add: createWindowMask_def Let_def)
    have "\<forall>i<n. \<forall>j<k. m ! i ! j = (int i = trace p \<and> int j = ?s)" using c by simp
    with cw shm show ?thesis by blast
  next
    case False
    then have cw: "createWindowMask (n, k) [p] dt_ms = Some ?w"
      using sc by (auto simp add: createWindowMask_def Let_def)
    have "\<forall>i<n. \<forall>j<k. ?w ! i ! j = (int i = trace p \<and> int j = ?s)"
      using False by auto
    with cw sh show ?thesis by blast
  qed
qed

theorem createWindowMask_single_point_witness:
  "(\<exists>m. createWindowMask (1, 3) [\<lparr>trace = 0, time_ms = Fin 7\<rparr>] (Fin 4) = Some m
       \<and> \<not> m ! 0 ! 0 \<and> m ! 0 ! 1 \<and> \<not> m ! 0 ! 2)
   \<and> (\<exists>m. createWindowMask (1, 6) [\<lparr>trace = 0, time_ms = Fin (1 / 2)\<rparr>]
              (Fin (13421773 / 134217728)) = Some m
       \<and> \<not> m ! 0 ! 4 \<and> m ! 0 ! 5)"
proof -
  have q1: "fdiv (time_ms \<lparr>trace = 0, time_ms = Fin 7\<rparr>) (Fin 4) = Fin (7 / 4)"
    by (simp add: round_exact)
  have q2: "fdiv (time_ms \<lparr>trace = 0, time_ms = Fin (1 / 2)\<rparr>) (Fin (13421773 / 134217728)) = Fin 5"
    by (simp add: round32_half_by_tenth)
  have t2: "truncate_real 5 = 5" by (simp add: truncate_real_def)
  have a: "\<exists>m. createWindowMask (1, 3) [\<lparr>trace = 0, time_ms = Fin 7\<rparr>] (Fin 4) = Some m
       \<and> \<not> m ! 0 ! 0 \<and> m ! 0 ! 1 \<and> \<not> m ! 0 ! 2"
    using createWindowMask_single_point[OF q1, of 1 3] by (auto simp add: truncate_7_4)
  have b: "\<exists>m. createWindowMask (1, 6) [\<lparr>trace = 0, time_ms = Fin (1 / 2)\<rparr>]
              (Fin (13421773 / 134217728)) = Some m
       \<and> \<not> m ! 0 ! 4 \<and> m ! 0 ! 5"
    using createWindowMask_single_point[OF q2, of 1 6] by (auto simp add: t2)
  from a b show ?thesis by blast
qed

text \<open>
  C4 as stated fails for the point \<open>(0, 7 ms)\<close> with \<open>dt = 4 ms\<close> on a grid of 1 trace and
  3 samples: the quotient is 1.75, the nearest sample index is 2, and the source marks
  sample 1.
\<close>

theorem single_point_round_counterexample:
  "createWindowMask (1, 3) [\<lparr>trace = 0, time_ms = Fin 7\<rparr>] (Fin 4) = Some [[False, True, False]]
   \<and> round (7 / 4 :: real) = 2"
proof -
  have "round (7 / 4 :: real) = 2" by (simp add: round_def)
  with point_example show ?thesis by simp
qed

lemma mark_points_shape:
  "has_shape n k m \<Longrightarrow> mark_points n' k' dt_ms ps m = Some m' \<Longrightarrow> has_shape n k m'"
proof (induction ps arbitrary: m)
  case Nil
  then show ?case by simp
next
  case (Cons p ps)
  from Cons.prems(2) obtain s where s: "static_cast_int (fdiv (time_ms p) dt_ms) = Some s"
    by (auto split: option.splits)
  show ?case
  proof (cases "trace p \<ge> 0 \<and> trace p < int n' \<and> s \<ge> 0 \<and> s < int k'")
    case True
    with Cons.prems(2) s obtain m1 where m1: "mark m (trace p) s = Some m1"
      and r: "mark_points n' k' dt_ms ps m1 = Some m'"
      by (auto split: option.splits)
    from mark_shape[OF Cons.prems(1) m1] have "has_shape n k m1" .
    from Cons.IH[OF this r] show ?thesis .
  next
    case False
    with Cons.prems(2) s have "mark_points n' k' dt_ms ps m = Some m'" by auto
    from Cons.IH[OF Cons.prems(1) this] show ?thesis .
  qed
qed

lemma fill_pairs_shape:
  "has_shape n k m \<Longrightarrow> fill_pairs n' k' dt_ms trace_idx xs m = Some m' \<Longrightarrow> has_shape n k m'"
proof (induction n' k' dt_ms trace_idx xs m rule: fill_pairs.induct)
  case (1 n' k' dt_ms trace_idx a b rest m)
  from "1.prems"(2) obtain s0 e0 where s0: "static_cast_int (fdiv a dt_ms) = Some s0"
    and e0: "static_cast_int (fdiv b dt_ms) = Some e0"
    by (auto split: option.splits)
  let ?s = "max 0 (min (int k' - 1) s0)"
  let ?e = "max 0 (min (int k' - 1) e0)"
  let ?body = "\<lambda>sample m. if trace_idx \<ge> 0 \<and> trace_idx < int n'
                                      then mark m trace_idx sample else Some m"
  from "1.prems"(2) s0 e0 obtain m1 where m1: "for_range ?s ?e ?body m = Some m1"
    and r: "fill_pairs n' k' dt_ms trace_idx rest m1 = Some m'"
    by (auto simp add: Let_def split: option.splits)
  have "has_shape n k m1"
  proof (rule for_range_preserves[where P = "has_shape n k" and body = ?body, OF _ "1.prems"(1) m1])
    fix i s s' assume "has_shape n k s" "?body i s = Some s'"
    then show "has_shape n k s'" by (auto simp add: mark_shape split: if_splits)
  qed
  from "1.IH"[OF s0 e0 refl refl m1 this r] show ?case .
qed simp_all

lemma createWindowMask_shape:
  assumes "createWindowMask (n, k) target_window dt_ms = Some m"
  shows "has_shape n k m"
proof -
  let ?w = "replicate n (replicate k False)"
  have sh: "has_shape n k ?w" by (rule has_shape_replicate)
  consider (empty) "target_window = []"
    | (rect) "target_window \<noteq> []" "length target_window = 2"
    | (point) "target_window \<noteq> []" "length target_window \<noteq> 2" "length target_window < 3"
    | (poly) "target_window \<noteq> []" "length target_window \<noteq> 2" "\<not> length target_window < 3"
    by blast
  then show ?thesis
  proof cases
    case empty
    with assms sh show ?thesis by (simp add: createWindowMask_def)
  next
    case rect
    with assms obtain lt ht ls hs where
      r: "for_range lt ht (\<lambda>t. for_range ls hs (\<lambda>s m. mark m t s)) ?w = Some m"
      by (auto simp add: createWindowMask_def Let_def split: option.splits)
    have inner: "has_shape n k s'" if "has_shape n k s" "for_range ls hs (\<lambda>s m. mark m t s) s = Some s'"
      for t s s'
      by (rule for_range_preserves[where P = "has_shape n k" and body = "\<lambda>s m. mark m t s", OF _ that])
         (rule mark_shape)
    show ?thesis
      by (rule for_range_preserves[where P = "has_shape n k", OF _ sh r]) (rule inner)
  next
    case point
    with assms have "mark_points n k dt_ms target_window ?w = Some m"
      by (simp add: createWindowMask_def Let_def)
    from mark_points_shape[OF sh this] show ?thesis .
  next
    case poly
    let ?closed = "target_window @ [target_window ! 0]"
    let ?body = "\<lambda>trace_idx m.
                   case std_sort (intersections_at trace_idx ?closed) of
                     None \<Rightarrow> None
                   | Some intersections \<Rightarrow> fill_pairs n k dt_ms trace_idx intersections m"
    from poly assms obtain lt ht where r: "for_range lt ht ?body ?w = Some m"
      by (auto simp add: createWindowMask_def Let_def)
    show ?thesis
    proof (rule for_range_preserves[where P = "has_shape n k" and body = ?body, OF _ sh r])
      fix i s s' assume "has_shape n k s" "?body i s = Some s'"
      then show "has_shape n k s'" by (auto simp add: fill_pairs_shape split: option.splits)
    qed
  qed
qed

subsection \<open>Shapes of the masks\<close>

lemma fold_preserves:
  "(\<And>x s. P s \<Longrightarrow> P (f x s)) \<Longrightarrow> P s \<Longrightarrow> P (fold f xs s)"
  by (induction xs arbitrary: s) simp_all

lemma has_shape_update_cell:
  assumes "has_shape n k m"
  shows "has_shape n k (m[i := (m ! i)[j := v]])"
proof (cases "i < length m")
  case True
  with assms have "length (m ! i) = k" by (simp add: has_shape_def list_all_length)
  then have "length ((m ! i)[j := v]) = k" by simp
  with assms show ?thesis by (rule has_shape_update)
next
  case False
  then have "length m \<le> i" by simp
  then have "m[i := (m ! i)[j := v]] = m" by (rule list_update_beyond)
  with assms show ?thesis by simp
qed

lemma forward_cell_shape:
  "has_shape n k dm \<Longrightarrow> has_shape n k (forward_cell bm tr ts i j dm)"
  by (simp add: forward_cell_def Let_def has_shape_update_cell)

lemma backward_cell_shape:
  "has_shape n k dm \<Longrightarrow> has_shape n k (backward_cell bm n' k' tr ts i j dm)"
  by (simp add: backward_cell_def Let_def has_shape_update_cell)

lemma distanceTransformEDT_shape:
  assumes n: "0 < n" and k: "0 < k" and sh: "has_shape n k binary_mask"
  shows "has_shape n k (distanceTransformEDT binary_mask sampling)"
proof -
  have len: "length binary_mask = n" and len0: "length (binary_mask ! 0) = k"
    using sh n by (simp_all add: has_shape_length has_shape_nth)
  have ne: "binary_mask \<noteq> []" "binary_mask ! 0 \<noteq> []" using len len0 n k by auto
  let ?init = "map (\<lambda>i. map (\<lambda>j. if \<not> binary_mask ! i ! j then Fin 0 else PInf) [0..<k]) [0..<n]"
  let ?fwd = "fold (\<lambda>i. fold (forward_cell binary_mask (sampling ! 0) (sampling ! 1) i) [0..<k])
                [0..<n] ?init"
  have init: "has_shape n k ?init" by (rule has_shape_map2)
  have row1: "has_shape n k (fold (forward_cell binary_mask (sampling ! 0) (sampling ! 1) i) [0..<k] s)"
    if "has_shape n k s" for i s
    using _ that by (rule fold_preserves) (rule forward_cell_shape)
  have row2: "has_shape n k
      (fold (backward_cell binary_mask n k (sampling ! 0) (sampling ! 1) i) (rev [0..<k]) s)"
    if "has_shape n k s" for i s
    using _ that by (rule fold_preserves) (rule backward_cell_shape)
  have fwd: "has_shape n k ?fwd"
    using _ init by (rule fold_preserves) (rule row1)
  have "has_shape n k
      (fold (\<lambda>i. fold (backward_cell binary_mask n k (sampling ! 0) (sampling ! 1) i) (rev [0..<k]))
         (rev [0..<n]) ?fwd)"
    using _ fwd by (rule fold_preserves) (rule row2)
  then show ?thesis using ne len len0 by (simp add: distanceTransformEDT_def Let_def)
qed

lemma createTransitionMask_shape:
  "has_shape n k (createTransitionMask (n, k) window tw twm dt_ms mode)"
  by (simp add: createTransitionMask_def Let_def mask_as_float_def has_shape_map2)

text \<open>
  C8. A window mask returned by \<open>createWindowMask\<close> has the shape it was asked for; the
  distance map of a mask with at least one trace and one sample has the shape of the mask;
  the blend-weight mask of \<open>createTransitionMask\<close> has the shape it was asked for.
\<close>

theorem mask_shapes:
  "(createWindowMask (n, k) target_window dt_ms = Some m \<longrightarrow> has_shape n k m)
   \<and> (0 < n \<and> 0 < k \<and> has_shape n k binary_mask \<longrightarrow>
        has_shape n k (distanceTransformEDT binary_mask sampling))
   \<and> has_shape n k (createTransitionMask (n, k) window tw twm dt_ms mode)"
  using createWindowMask_shape distanceTransformEDT_shape createTransitionMask_shape by blast

theorem mask_shapes_witness:
  "has_shape 1 3 [[False, True, False]]
   \<and> has_shape 1 3 (distanceTransformEDT [[False, True, True]] [Fin 1, Fin 1])
   \<and> has_shape 1 3 (createTransitionMask (1, 3) [[False, True, True]] 1 (Fin 1) (Fin 4) INSIDE)"
proof -
  have sh: "has_shape 1 3 [[False, True, True]]" by (simp add: has_shape_def)
  show ?thesis
    using mask_shapes[of 1 3 "[\<lparr>trace = 0, time_ms = Fin 7\<rparr>]" "Fin 4" "[[False, True, False]]"
        "[[False, True, True]]" "[Fin 1, Fin 1]" "[[False, True, True]]" 1 "Fin 1" INSIDE]
      point_example sh
    by simp
qed

subsection \<open>\<open>amplifySeismicWindow\<close>\<close>

lemma has_true_iff: "has_true w \<longleftrightarrow> (\<exists>i<length w. \<exists>j<length (w ! i). w ! i ! j)"
  unfolding has_true_def list_ex_iff by (metis in_set_conv_nth)

lemma out_of_range_example:
  "createWindowMask (1, 2) [\<lparr>trace = 5, time_ms = Fin 0\<rparr>] (Fin 2) = Some [[False, False]]"
  by (simp add: createWindowMask_def Let_def round_exact truncate_real_def small_lists)

text \<open>
  C2. For a volume with at least one trace and one sample: if the window has no point, or
  the window mask is built and has no true cell, the call returns normally with the input
  volume as output, a multiplier mask of ones and a window mask of \<open>False\<close>.
\<close>

theorem amplify_noop:
  "seismic_data \<noteq> [] \<Longrightarrow> seismic_data ! 0 \<noteq> [] \<Longrightarrow>
   target_window = []
     \<or> (\<exists>w. createWindowMask (length seismic_data, length (seismic_data ! 0)) target_window dt_ms
               = Some w
            \<and> (\<forall>i<length w. \<forall>j<length (w ! i). \<not> w ! i ! j)) \<Longrightarrow>
     amplifySeismicWindow seismic_data dt_ms target_window mode scale_factor
         transition_width_traces transition_width_time_ms transition_mode
         align_width_traces align_width_time_ms
       = Inr \<lparr>output_data = seismic_data,
              multiplier_mask =
                replicate (length seismic_data) (replicate (length (seismic_data ! 0)) (Fin 1)),
              window_indices =
                replicate (length seismic_data) (replicate (length (seismic_data ! 0)) False)\<rparr>"
proof -
  assume ne: "seismic_data \<noteq> []" "seismic_data ! 0 \<noteq> []"
    and c: "target_window = []
     \<or> (\<exists>w. createWindowMask (length seismic_data, length (seismic_data ! 0)) target_window dt_ms
               = Some w
            \<and> (\<forall>i<length w. \<forall>j<length (w ! i). \<not> w ! i ! j))"
  from c show ?thesis
  proof
    assume "target_window = []"
    with ne show ?thesis
      by (simp add: amplifySeismicWindow_def createWindowMask_def Let_def AmplifyResult_init_def)
  next
    assume "\<exists>w. createWindowMask (length seismic_data, length (seismic_data ! 0)) target_window dt_ms
               = Some w
            \<and> (\<forall>i<length w. \<forall>j<length (w ! i). \<not> w ! i ! j)"
    then obtain w where w: "createWindowMask (length seismic_data, length (seismic_data ! 0))
        target_window dt_ms = Some w" and f: "\<not> has_true w"
      by (auto simp add: has_true_iff)
    with ne show ?thesis
      by (simp add: amplifySeismicWindow_def Let_def AmplifyResult_init_def)
  qed
qed

theorem amplify_noop_witness:
  "amplifySeismicWindow [[Fin 1, Fin 2]] (Fin 2) [] SCALE (Fin 3) 5 (Fin 20) INSIDE 10 (Fin 50)
     = Inr \<lparr>output_data = [[Fin 1, Fin 2]], multiplier_mask = [[Fin 1, Fin 1]],
            window_indices = [[False, False]]\<rparr>
   \<and> amplifySeismicWindow [[Fin 1, Fin 2]] (Fin 2) [\<lparr>trace = 5, time_ms = Fin 0\<rparr>] SCALE (Fin 3)
         5 (Fin 20) INSIDE 10 (Fin 50)
     = Inr \<lparr>output_data = [[Fin 1, Fin 2]], multiplier_mask = [[Fin 1, Fin 1]],
            window_indices = [[False, False]]\<rparr>"
proof -
  let ?d = "[[Fin 1, Fin 2]]"
  let ?p = "\<lparr>trace = 5, time_ms = Fin 0\<rparr>"
  have ne: "?d \<noteq> []" "?d ! 0 \<noteq> []" by simp_all
  have l: "length ?d = 1" and l0: "length (?d ! 0) = 2" by simp_all
  have r1: "replicate (length ?d) (replicate (length (?d ! 0)) (Fin 1)) = [[Fin 1, Fin 1]]"
    and r2: "replicate (length ?d) (replicate (length (?d ! 0)) False) = [[False, False]]"
    by simp_all
  have allf: "\<forall>i<length [[False, False]]. \<forall>j<length ([[False, False]] ! i). \<not> [[False, False]] ! i ! j"
    by (simp add: less_Suc_eq)
  have cw: "createWindowMask (length ?d, length (?d ! 0)) [?p] (Fin 2) = Some [[False, False]]"
    unfolding l l0 by (rule out_of_range_example)
  have d1: "[] = [] \<or> (\<exists>w. createWindowMask (length ?d, length (?d ! 0)) [] (Fin 2) = Some w
            \<and> (\<forall>i<length w. \<forall>j<length (w ! i). \<not> w ! i ! j))"
    by simp
  have d2: "[?p] = [] \<or> (\<exists>w. createWindowMask (length ?d, length (?d ! 0)) [?p] (Fin 2) = Some w
            \<and> (\<forall>i<length w. \<forall>j<length (w ! i). \<not> w ! i ! j))"
    using cw allf by blast
  from amplify_noop[OF ne d1, of SCALE "Fin 3" 5 "Fin 20" INSIDE 10 "Fin 50"]
       amplify_noop[OF ne d2, of SCALE "Fin 3" 5 "Fin 20" INSIDE 10 "Fin 50"]
  show ?thesis unfolding r1 r2 by simp
qed

lemma rect_example:
  "createWindowMask (1, 2) [\<lparr>trace = 0, time_ms = Fin 0\<rparr>, \<lparr>trace = 0, time_ms = Fin 0\<rparr>] (Fin 2)
     = Some [[True, False]]"
  by (simp add: createWindowMask_def Let_def round_exact truncate_real_def small_lists
      for_range.simps mark_def)

lemma hard_example:
  "createTransitionMask (1, 2) [[True, False]] 0 (Fin 0) (Fin 2) INSIDE = [[Fin 1, Fin 0]]"
  by (simp add: createTransitionMask_def Let_def mask_as_float_def small_lists)

text \<open>
  C1. On the path that is not the no-op (a rectangular volume with at least one trace and
  one sample, a window with points whose mask \<open>w\<close> has a true cell, and a gain \<open>gain\<close>
  computed by \<open>target_amplification\<close>), the call returns the window mask \<open>w\<close>, and both
  the multiplier mask and the output have the shape of the volume with, in every cell,
  \<open>multiplier = 1 + blend * (gain - 1)\<close> and \<open>output = input * multiplier\<close>, where
  \<open>blend\<close> is the cell of \<open>createTransitionMask\<close>.
\<close>

theorem amplify_multiplier:
  "seismic_data \<noteq> [] \<Longrightarrow> seismic_data ! 0 \<noteq> [] \<Longrightarrow>
   has_shape n k seismic_data \<Longrightarrow>
   target_window \<noteq> [] \<Longrightarrow>
   createWindowMask (n, k) target_window dt_ms = Some w \<Longrightarrow>
   \<exists>i<n. \<exists>j<k. w ! i ! j \<Longrightarrow>
   target_amplification seismic_data dt_ms w mode scale_factor align_width_traces
       align_width_time_ms = Some gain \<Longrightarrow>
     \<exists>r. amplifySeismicWindow seismic_data dt_ms target_window mode scale_factor
              transition_width_traces transition_width_time_ms transition_mode
              align_width_traces align_width_time_ms = Inr r
        \<and> window_indices r = w
        \<and> has_shape n k (multiplier_mask r) \<and> has_shape n k (output_data r)
        \<and> (\<forall>i<n. \<forall>j<k.
              multiplier_mask r ! i ! j =
                fadd (Fin 1)
                  (fmul (createTransitionMask (n, k) w transition_width_traces
                           transition_width_time_ms dt_ms transition_mode ! i ! j)
                        (fsub gain (Fin 1)))
              \<and> output_data r ! i ! j = fmul (seismic_data ! i ! j) (multiplier_mask r ! i ! j))"
proof -
  assume ne: "seismic_data \<noteq> []" "seismic_data ! 0 \<noteq> []"
    and sh: "has_shape n k seismic_data"
    and tw: "target_window \<noteq> []"
    and w: "createWindowMask (n, k) target_window dt_ms = Some w"
    and cell: "\<exists>i<n. \<exists>j<k. w ! i ! j"
    and g: "target_amplification seismic_data dt_ms w mode scale_factor align_width_traces
       align_width_time_ms = Some gain"
  have n: "length seismic_data = n" using sh by (rule has_shape_length)
  have n0: "0 < n" using ne n by auto
  have k: "length (seismic_data ! 0) = k" using sh n0 by (rule has_shape_nth)
  have shw: "has_shape n k w" using w by (rule createWindowMask_shape)
  have ht: "has_true w"
  proof -
    from cell obtain i j where ij: "i < n" "j < k" "w ! i ! j" by blast
    from shw ij have "i < length w" "j < length (w ! i)"
      by (simp_all add: has_shape_length has_shape_nth)
    with ij(3) show ?thesis unfolding has_true_iff by blast
  qed
  let ?bm = "createTransitionMask (n, k) w transition_width_traces
                           transition_width_time_ms dt_ms transition_mode"
  let ?mult = "map (\<lambda>i. map (\<lambda>j. fadd (Fin 1) (fmul (?bm ! i ! j) (fsub gain (Fin 1)))) [0..<k]) [0..<n]"
  let ?out = "map (\<lambda>i. map (\<lambda>j. fmul (seismic_data ! i ! j) (?mult ! i ! j)) [0..<k]) [0..<n]"
  let ?r = "\<lparr>output_data = ?out, multiplier_mask = ?mult, window_indices = w\<rparr>"
  have res: "amplifySeismicWindow seismic_data dt_ms target_window mode scale_factor
              transition_width_traces transition_width_time_ms transition_mode
              align_width_traces align_width_time_ms = Inr ?r"
    using ne n k tw w ht g by (simp add: amplifySeismicWindow_def Let_def)
  have s1: "has_shape n k ?mult" by (rule has_shape_map2)
  have s2: "has_shape n k ?out" by (rule has_shape_map2)
  have cells: "\<forall>i<n. \<forall>j<k.
      ?mult ! i ! j = fadd (Fin 1) (fmul (?bm ! i ! j) (fsub gain (Fin 1)))
      \<and> ?out ! i ! j = fmul (seismic_data ! i ! j) (?mult ! i ! j)"
    by simp
  show ?thesis
    apply (rule exI[of _ ?r])
    using res s1 s2 cells by simp
qed

theorem amplify_multiplier_witness:
  "\<exists>r. amplifySeismicWindow [[Fin 10, Fin 10]] (Fin 2)
          [\<lparr>trace = 0, time_ms = Fin 0\<rparr>, \<lparr>trace = 0, time_ms = Fin 0\<rparr>] SCALE (Fin 2)
          0 (Fin 0) INSIDE 10 (Fin 50) = Inr r
      \<and> window_indices r = [[True, False]]
      \<and> multiplier_mask r ! 0 ! 0 = Fin 2 \<and> multiplier_mask r ! 0 ! 1 = Fin 1
      \<and> output_data r ! 0 ! 0 = Fin 20 \<and> output_data r ! 0 ! 1 = Fin 10"
proof -
  let ?d = "[[Fin 10, Fin 10]]"
  have ne: "?d \<noteq> []" "?d ! 0 \<noteq> []" by simp_all
  have sh: "has_shape 1 2 ?d" by (simp add: has_shape_def)
  have tw: "[\<lparr>trace = 0, time_ms = Fin 0\<rparr>, \<lparr>trace = 0, time_ms = Fin 0\<rparr>] \<noteq> []" by simp
  have c: "\<exists>i<1. \<exists>j<2. [[True, False]] ! i ! j"
    by (rule exI[of _ 0], simp, rule exI[of _ 0], simp)
  have g: "target_amplification ?d (Fin 2) [[True, False]] SCALE (Fin 2) 10 (Fin 50)
             = Some (Fin 2)"
    by (simp add: target_amplification_def)
  from amplify_multiplier[OF ne sh tw rect_example c g, of 0 "Fin 0" INSIDE]
  obtain r where r: "amplifySeismicWindow ?d (Fin 2)
          [\<lparr>trace = 0, time_ms = Fin 0\<rparr>, \<lparr>trace = 0, time_ms = Fin 0\<rparr>] SCALE (Fin 2)
          0 (Fin 0) INSIDE 10 (Fin 50) = Inr r"
    and w: "window_indices r = [[True, False]]"
    and cells: "\<forall>i<1. \<forall>j<2.
              multiplier_mask r ! i ! j =
                fadd (Fin 1)
                  (fmul (createTransitionMask (1, 2) [[True, False]] 0 (Fin 0) (Fin 2) INSIDE ! i ! j)
                        (fsub (Fin 2) (Fin 1)))
              \<and> output_data r ! i ! j = fmul (?d ! i ! j) (multiplier_mask r ! i ! j)"
    by blast
  from cells have "multiplier_mask r ! 0 ! 0 = Fin 2 \<and> output_data r ! 0 ! 0 = Fin 20"
    by (simp add: hard_example[simplified] fsub_def round_exact)
  moreover from cells have "multiplier_mask r ! 0 ! 1 = Fin 1 \<and> output_data r ! 0 ! 1 = Fin 10"
    by (simp add: hard_example[simplified] fsub_def round_exact)
  ultimately show ?thesis using r w by simp
qed

subsection \<open>Blend weights and the unit interval\<close>

text \<open>
  With a width that is not positive (hard edge) and in \<open>OUTSIDE\<close> mode every blend weight
  lies between 0 and 1, whatever the distances are: the weight is 0, 1 or a value clamped by
  \<^verbatim>\<open>std::max(0.0f, std::min(1.0f, ...))\<close>, which also maps NaN into the interval.
\<close>

lemma clamp_unit:
  "fle (Fin 0) (std_max (Fin 0) (std_min (Fin 1) x)) \<and> fle (std_max (Fin 0) (std_min (Fin 1) x)) (Fin 1)"
  by (cases x) (auto simp add: std_max_def std_min_def)

lemma mask_as_float_unit:
  "i < n \<Longrightarrow> j < k \<Longrightarrow>
     fle (Fin 0) (mask_as_float n k w ! i ! j) \<and> fle (mask_as_float n k w ! i ! j) (Fin 1)"
  by (simp add: mask_as_float_def)

lemma transition_unit_outside_or_hard:
  assumes "i < n" "j < k"
    and "tw \<le> 0 \<or> fle twm (Fin 0) \<or> mode = OUTSIDE"
  shows "fle (Fin 0) (createTransitionMask (n, k) w tw twm dt_ms mode ! i ! j)
       \<and> fle (createTransitionMask (n, k) w tw twm dt_ms mode ! i ! j) (Fin 1)"
proof (cases "tw \<le> 0 \<or> fle twm (Fin 0)")
  case True
  then have "createTransitionMask (n, k) w tw twm dt_ms mode = mask_as_float n k w"
    by (simp add: createTransitionMask_def)
  with assms(1,2) show ?thesis by (simp add: mask_as_float_unit)
next
  case False
  with assms(3) have m: "mode = OUTSIDE" by blast
  from False m assms(1,2) show ?thesis
    by (simp add: createTransitionMask_def Let_def clamp_unit)
qed


lemma full_window_example:
  "createWindowMask (1, 2) [\<lparr>trace = 0, time_ms = Fin 0\<rparr>, \<lparr>trace = 0, time_ms = Fin 2\<rparr>] (Fin 2)
     = Some [[True, True]]"
  by (simp add: createWindowMask_def Let_def round_exact truncate_real_def small_lists
      for_range.simps mark_def)

lemma full_window_edt: "distanceTransformEDT [[True, True]] [a, b] = [[PInf, PInf]]"
  by (cases b)
     (simp_all add: distanceTransformEDT_def Let_def forward_cell_def backward_cell_def
        std_min_def small_lists)

text \<open>
  C3 fails on the source in \<open>INSIDE\<close> mode: when the window covers the whole grid, positive
  widths give every cell the distance infinity, \<open>max_dist_inside\<close> is infinity,
  and every blend weight is infinity divided by infinity, NaN. Through
  \<open>amplifySeismicWindow\<close> a rectangle over the whole volume (default widths 5 and 20 ms)
  turns every output sample into NaN.
\<close>

theorem transition_inside_full_window:
  "createTransitionMask (1, 2) [[True, True]] 5 (Fin 20) (Fin 2) INSIDE = [[NaN, NaN]]
   \<and> amplifySeismicWindow [[Fin 1, Fin 2]] (Fin 2)
        [\<lparr>trace = 0, time_ms = Fin 0\<rparr>, \<lparr>trace = 0, time_ms = Fin 2\<rparr>] SCALE (Fin 2)
        5 (Fin 20) INSIDE 10 (Fin 50)
     = Inr \<lparr>output_data = [[NaN, NaN]], multiplier_mask = [[NaN, NaN]],
            window_indices = [[True, True]]\<rparr>"
proof -
  let ?d = "[[Fin 1, Fin 2]]"
  have l: "length ?d = 1" and l0: "length (?d ! 0) = 2" by simp_all
  have t: "createTransitionMask (1, 2) [[True, True]] 5 (Fin 20) (Fin 2) INSIDE = [[NaN, NaN]]"
    by (simp add: createTransitionMask_def Let_def full_window_edt
        max_dist_inside_of_def std_max_def small_lists)
  have ht: "has_true [[True, True]]" by (simp add: has_true_def)
  have g: "target_amplification ?d (Fin 2) [[True, True]] SCALE (Fin 2) 10 (Fin 50) = Some (Fin 2)"
    by (simp add: target_amplification_def)
  have "amplifySeismicWindow ?d (Fin 2)
        [\<lparr>trace = 0, time_ms = Fin 0\<rparr>, \<lparr>trace = 0, time_ms = Fin 2\<rparr>] SCALE (Fin 2)
        5 (Fin 20) INSIDE 10 (Fin 50)
     = Inr \<lparr>output_data = [[NaN, NaN]], multiplier_mask = [[NaN, NaN]],
            window_indices = [[True, True]]\<rparr>"
    unfolding amplifySeismicWindow_def Let_def l l0 full_window_example
    by (simp add: t[simplified] ht g fsub_def small_lists)
  with t show ?thesis by simp
qed

end
